theory Spec2Isabelle
  imports Main
begin

section \<open>Field errors and field paths\<close>

text \<open>
  The validators of \<^verbatim>\<open>pkg/oauth/api/validation/validation.go\<close> return a
  \<^verbatim>\<open>field.ErrorList\<close>. A path is built by \<^verbatim>\<open>field.NewPath(name, more...)\<close>,
  \<^verbatim>\<open>p.Child(name, more...)\<close> and \<^verbatim>\<open>p.Index(i)\<close>; it is modelled as the sequence of its
  segments, root first. An error is built by one of \<^verbatim>\<open>field.Required(path, detail)\<close>,
  \<^verbatim>\<open>field.Invalid(path, value, detail)\<close> and \<^verbatim>\<open>field.NotSupported(path, value, validValues)\<close>;
  the datatype has one constructor for each.
\<close>

datatype PathElem = PathName string | PathIndex nat

type_synonym Path = "PathElem list"

definition NewPath :: "string \<Rightarrow> string list \<Rightarrow> Path" where
  "NewPath name moreNames = map PathName (name # moreNames)"

definition Child :: "Path \<Rightarrow> string \<Rightarrow> string list \<Rightarrow> Path" where
  "Child p name moreNames = p @ map PathName (name # moreNames)"

definition Index :: "Path \<Rightarrow> nat \<Rightarrow> Path" where
  "Index p i = p @ [PathIndex i]"

section \<open>The objects\<close>

text \<open>
  The types of package \<^verbatim>\<open>api\<close> are declared outside the file; the records hold the
  fields the validators read. \<^verbatim>\<open>ObjectMeta\<close> is embedded in every object, so that
  \<^verbatim>\<open>clientAuthorization.Name\<close> is \<^verbatim>\<open>clientAuthorization.ObjectMeta.Name\<close>. A nil
  \<^verbatim>\<open>*ClusterRoleScopeRestriction\<close> is \<open>None\<close>.
\<close>

record ObjectMeta =
  Name :: string
  GenerateName :: string
  Namespace :: string
  ResourceVersion :: string
  Labels :: "(string \<times> string) list"
  Annotations :: "(string \<times> string) list"

record ClusterRoleScopeRestriction =
  RoleNames :: "string list"
  Namespaces :: "string list"
  AllowEscalation :: bool

record ScopeRestriction =
  ExactValues :: "string list"
  ClusterRole :: "ClusterRoleScopeRestriction option"

record OAuthAccessToken =
  ObjectMeta :: ObjectMeta
  ClientName :: string
  Scopes :: "string list"
  RedirectURI :: string
  UserName :: string
  UserUID :: string

record OAuthAuthorizeToken =
  ObjectMeta :: ObjectMeta
  ClientName :: string
  Scopes :: "string list"
  RedirectURI :: string
  UserName :: string
  UserUID :: string
  CodeChallenge :: string
  CodeChallengeMethod :: string

record OAuthClient =
  ObjectMeta :: ObjectMeta
  RedirectURIs :: "string list"
  ScopeRestrictions :: "ScopeRestriction list"

record OAuthClientAuthorization =
  ObjectMeta :: ObjectMeta
  ClientName :: string
  UserName :: string
  UserUID :: string
  Scopes :: "string list"

text \<open>The \<^verbatim>\<open>interface{}\<close> values that the validators hand to the error constructors
  and to \<^verbatim>\<open>ValidateImmutableField\<close>.\<close>

datatype Value =
    VString string
  | VScopeRestriction ScopeRestriction
  | VAccessToken OAuthAccessToken
  | VAuthorizeToken OAuthAuthorizeToken

datatype Error =
    Required Path string
  | Invalid Path Value string
  | NotSupported Path Value "string list"

type_synonym ErrorList = "Error list"

fun Field :: "Error \<Rightarrow> Path" where
  "Field (Required p d) = p"
| "Field (Invalid p v d) = p"
| "Field (NotSupported p v vs) = p"

section \<open>External collaborators\<close>

text \<open>
  \<^verbatim>\<open>url.Parse\<close> returns an error or a URL, of which the validator reads
  \<^verbatim>\<open>Path\<close> and \<^verbatim>\<open>Fragment\<close>. A scope evaluator is the pair of methods the validator
  calls; \<^verbatim>\<open>Validate\<close> returns \<open>None\<close> for a nil error and the error's text otherwise.
\<close>

record URL =
  Path :: string
  Fragment :: string

record ScopeEvaluator =
  Handles :: "string \<Rightarrow> bool"
  Validate :: "string \<Rightarrow> string option"

text \<open>
  The functions and the package variable that the file imports from other packages
  (\<^verbatim>\<open>oapi\<close>, \<^verbatim>\<open>validation\<close>, \<^verbatim>\<open>serviceaccount\<close>, \<^verbatim>\<open>uservalidation\<close>,
  \<^verbatim>\<open>authorizerscopes\<close>, \<^verbatim>\<open>net/url\<close>) are parameters of the model: every validator
  takes the record of them, and every theorem holds for all of them.
  \<^verbatim>\<open>SplitUsername\<close> returns the error text or the namespace and name.
\<close>

record Externals =
  MinimalNameRequirements :: "string \<Rightarrow> bool \<Rightarrow> string list"
  ValidateObjectMeta ::
    "ObjectMeta \<Rightarrow> bool \<Rightarrow> (string \<Rightarrow> bool \<Rightarrow> string list) \<Rightarrow> Path \<Rightarrow> ErrorList"
  ValidateObjectMetaUpdate :: "ObjectMeta \<Rightarrow> ObjectMeta \<Rightarrow> Path \<Rightarrow> ErrorList"
  ValidateImmutableField :: "Value \<Rightarrow> Value \<Rightarrow> Path \<Rightarrow> ErrorList"
  NameIsDNSSubdomain :: "string \<Rightarrow> bool \<Rightarrow> string list"
  ValidateServiceAccountName :: "string \<Rightarrow> bool \<Rightarrow> string list"
  SplitUsername :: "string \<Rightarrow> string + (string \<times> string)"
  ValidateUserName :: "string \<Rightarrow> bool \<Rightarrow> string list"
  url_Parse :: "string \<Rightarrow> string + URL"
  ScopeEvaluators :: "ScopeEvaluator list"

section \<open>Strings\<close>

text \<open>
  A Go string is a sequence of bytes, here a \<open>string\<close>. \<^verbatim>\<open>strings.Join\<close>,
  \<^verbatim>\<open>strings.Split\<close> with a one-byte separator and \<^verbatim>\<open>strings.Index\<close> with a
  one-byte pattern (\<open>-1\<close> when absent) are written out.
\<close>

fun strings_Join :: "string list \<Rightarrow> string \<Rightarrow> string" where
  "strings_Join [] sep = []"
| "strings_Join [a] sep = a"
| "strings_Join (a # b # rest) sep = a @ sep @ strings_Join (b # rest) sep"

fun strings_Split :: "string \<Rightarrow> char \<Rightarrow> string list" where
  "strings_Split [] sep = [[]]"
| "strings_Split (c # cs) sep =
     (if c = sep then [] # strings_Split cs sep
      else (case strings_Split cs sep of
              [] \<Rightarrow> [[c]]
            | seg # segs \<Rightarrow> (c # seg) # segs))"

fun strings_Index :: "string \<Rightarrow> char \<Rightarrow> int" where
  "strings_Index [] c = -1"
| "strings_Index (x # xs) c =
     (if x = c then 0
      else (let r = strings_Index xs c in if r < 0 then -1 else r + 1))"

text \<open>Decimal formatting, as \<^verbatim>\<open>%d\<close> and \<^verbatim>\<open>%v\<close> print an integer.\<close>

function decimal :: "nat \<Rightarrow> string" where
  "decimal n =
     (if n < 10 then [''0123456789'' ! n]
      else decimal (n div 10) @ [''0123456789'' ! (n mod 10)])"
  by pat_completeness auto
termination
  by (relation "measure id") auto

definition formatInt :: "int \<Rightarrow> string" where
  "formatInt i = (if i < 0 then CHR ''-'' # decimal (nat (- i)) else decimal (nat i))"

text \<open>
  \<^verbatim>\<open>for _, ch := range s\<close> decodes the bytes of \<open>s\<close> as UTF-8 and yields one rune
  per step: the code point of a well-formed sequence, and \<^verbatim>\<open>0xFFFD\<close> for a byte that
  starts none, after which the iteration advances one byte. \<open>DecodeRune\<close> returns the
  rune and the number of bytes it takes. For a leading byte \<open>s0\<close> of \<^verbatim>\<open>0xC2\<close> to
  \<^verbatim>\<open>0xF4\<close>, \<open>seqSize s0\<close> is the length of the sequence and \<open>acceptLo s0\<close> to
  \<open>acceptHi s0\<close> the range of its second byte, which excludes overlong forms,
  surrogates and code points beyond \<^verbatim>\<open>0x10FFFF\<close>; later bytes are \<^verbatim>\<open>0x80\<close> to
  \<^verbatim>\<open>0xBF\<close>.
\<close>

definition RuneError :: int where
  "RuneError = 65533"

definition seqSize :: "nat \<Rightarrow> nat" where
  "seqSize s0 = (if s0 < 224 then 2 else if s0 < 240 then 3 else 4)"

definition acceptLo :: "nat \<Rightarrow> nat" where
  "acceptLo s0 = (if s0 = 224 then 160 else if s0 = 240 then 144 else 128)"

definition acceptHi :: "nat \<Rightarrow> nat" where
  "acceptHi s0 = (if s0 = 237 then 159 else if s0 = 244 then 143 else 191)"

fun DecodeRune :: "nat list \<Rightarrow> int \<times> nat" where
  "DecodeRune [] = (RuneError, 0)"
| "DecodeRune (s0 # rest) =
     (if s0 < 128 then (int s0, 1)
      else if s0 < 194 \<or> 244 < s0 then (RuneError, 1)
      else if length (s0 # rest) < seqSize s0 then (RuneError, 1)
      else if rest ! 0 < acceptLo s0 \<or> acceptHi s0 < rest ! 0 then (RuneError, 1)
      else if seqSize s0 \<le> 2 then (int ((s0 mod 32) * 64 + rest ! 0 mod 64), 2)
      else if rest ! 1 < 128 \<or> 191 < rest ! 1 then (RuneError, 1)
      else if seqSize s0 \<le> 3
      then (int ((s0 mod 16) * 4096 + (rest ! 0 mod 64) * 64 + rest ! 1 mod 64), 3)
      else if rest ! 2 < 128 \<or> 191 < rest ! 2 then (RuneError, 1)
      else (int ((s0 mod 8) * 262144 + (rest ! 0 mod 64) * 4096
                  + (rest ! 1 mod 64) * 64 + rest ! 2 mod 64), 4))"

lemma DecodeRune_width: "DecodeRune (b # bs) = (r, w) \<Longrightarrow> 1 \<le> w"
  by (auto split: if_splits)

function decodeAll :: "nat list \<Rightarrow> int list" where
  "decodeAll [] = []"
| "decodeAll (b # bs) =
     (case DecodeRune (b # bs) of (r, w) \<Rightarrow> r # decodeAll (drop w (b # bs)))"
  by pat_completeness auto
termination
proof (relation "measure length")
  show "wf (measure length)" by simp
next
  fix b :: nat and bs :: "nat list" and x :: "int \<times> nat" and r :: int and w :: nat
  assume "(r, w) = DecodeRune (b # bs)"
  then have "1 \<le> w" using DecodeRune_width [of b bs r w] by simp
  then show "(drop w (b # bs), b # bs) \<in> measure length" by simp
qed

definition runes :: "string \<Rightarrow> int list" where
  "runes s = decodeAll (map of_char s)"

section \<open>Names and redirect URIs\<close>

definition MinTokenLength :: nat where
  "MinTokenLength = 32"

definition codeChallengeMethodPlain :: string where
  "codeChallengeMethodPlain = ''plain''"

definition codeChallengeMethodSHA256 :: string where
  "codeChallengeMethodSHA256 = ''S256''"

definition CodeChallengeMethodsSupported :: "string list" where
  "CodeChallengeMethodsSupported = [codeChallengeMethodPlain, codeChallengeMethodSHA256]"

definition ValidateTokenName :: "Externals \<Rightarrow> string \<Rightarrow> bool \<Rightarrow> string list" where
  "ValidateTokenName ext name prefix =
     (let reasons = MinimalNameRequirements ext name prefix
      in if length reasons \<noteq> 0 then reasons
         else if length name < MinTokenLength
         then [''must be at least '' @ formatInt (int MinTokenLength) @ '' characters long'']
         else [])"

fun segmentLoop :: "string list \<Rightarrow> bool \<times> string" where
  "segmentLoop [] = (True, [])"
| "segmentLoop (s # rest) =
     (if s = ''.'' then (False, ''may not contain a path segment of .'')
      else if s = ''..'' then (False, ''may not contain a path segment of ..'')
      else segmentLoop rest)"

definition ValidateRedirectURI :: "Externals \<Rightarrow> string \<Rightarrow> bool \<times> string" where
  "ValidateRedirectURI ext redirect =
     (if length redirect = 0 then (True, [])
      else
        (case url_Parse ext redirect of
           Inl err \<Rightarrow> (False, err)
         | Inr u \<Rightarrow>
             if length (Fragment u) \<noteq> 0 then (False, ''may not contain a fragment'')
             else segmentLoop (strings_Split (Path u) CHR ''/'')))"

definition ValidateClientAuthorizationName :: "Externals \<Rightarrow> string \<Rightarrow> bool \<Rightarrow> string list" where
  "ValidateClientAuthorizationName ext name prefix =
     (let reasons = MinimalNameRequirements ext name prefix
      in if length reasons \<noteq> 0 then reasons
         else
           (let lastColon = strings_Index name CHR '':''
            in if lastColon \<le> 0 \<or> lastColon \<ge> int (length name) - 1
               then [''must be in the format <userName>:<clientName>'']
               else []))"

definition ValidateClientNameField :: "Externals \<Rightarrow> string \<Rightarrow> Path \<Rightarrow> ErrorList" where
  "ValidateClientNameField ext v fldPath =
     (if length v = 0 then [Required fldPath []]
      else
        (case SplitUsername ext v of
           Inr (ns, saName) \<Rightarrow>
             (let reasons = ValidateServiceAccountName ext saName False
              in if length reasons \<noteq> 0
                 then [Invalid fldPath (VString v) (strings_Join reasons '', '')]
                 else [])
         | Inl err \<Rightarrow>
             (let reasons = NameIsDNSSubdomain ext v False
              in if length reasons \<noteq> 0
                 then [Invalid fldPath (VString v) (strings_Join reasons '', '')]
                 else [])))"

definition ValidateUserNameField :: "Externals \<Rightarrow> string \<Rightarrow> Path \<Rightarrow> ErrorList" where
  "ValidateUserNameField ext v fldPath =
     (if length v = 0 then [Required fldPath []]
      else
        (let reasons = ValidateUserName ext v False
         in if length reasons \<noteq> 0
            then [Invalid fldPath (VString v) (strings_Join reasons '', '')]
            else []))"

section \<open>Scopes\<close>

text \<open>
  The three loops of \<^verbatim>\<open>ValidateScopes\<close>, each carrying the variables it assigns.
  \<open>charLoop\<close> is the loop over the runes of one scope (\<open>allErrs\<close> and
  \<open>illegalCharacter\<close>); \<open>evaluatorLoop\<close> is the loop over the evaluators
  (\<open>allErrs\<close> and \<open>found\<close>), which \<^verbatim>\<open>break\<close> leaves after an error of
  \<^verbatim>\<open>Validate\<close>; \<open>scopesLoop\<close> is the loop over the scopes, where \<^verbatim>\<open>continue\<close>
  goes on to the next scope.
\<close>

fun charLoop :: "Path \<Rightarrow> nat \<Rightarrow> string \<Rightarrow> int list \<Rightarrow> ErrorList \<times> bool \<Rightarrow> ErrorList \<times> bool" where
  "charLoop fldPath i scope [] st = st"
| "charLoop fldPath i scope (ch # chs) (allErrs, illegalCharacter) =
     (if ch = 33 then charLoop fldPath i scope chs (allErrs, illegalCharacter)
      else if ch \<ge> 35 \<and> ch \<le> 91 then charLoop fldPath i scope chs (allErrs, illegalCharacter)
      else if ch \<ge> 93 \<and> ch \<le> 126 then charLoop fldPath i scope chs (allErrs, illegalCharacter)
      else charLoop fldPath i scope chs
             (allErrs @ [Invalid (Index fldPath i) (VString scope) (formatInt ch @ '' not allowed'')],
              True))"

fun evaluatorLoop ::
  "ScopeEvaluator list \<Rightarrow> Path \<Rightarrow> nat \<Rightarrow> string \<Rightarrow> ErrorList \<times> bool \<Rightarrow> ErrorList \<times> bool" where
  "evaluatorLoop [] fldPath i scope st = st"
| "evaluatorLoop (evaluator # rest) fldPath i scope (allErrs, found) =
     (if \<not> Handles evaluator scope then evaluatorLoop rest fldPath i scope (allErrs, found)
      else
        (case Validate evaluator scope of
           Some err \<Rightarrow> (allErrs @ [Invalid (Index fldPath i) (VString scope) err], True)
         | None \<Rightarrow> evaluatorLoop rest fldPath i scope (allErrs, True)))"

fun scopesLoop :: "ScopeEvaluator list \<Rightarrow> Path \<Rightarrow> nat \<Rightarrow> string list \<Rightarrow> ErrorList \<Rightarrow> ErrorList" where
  "scopesLoop evs fldPath i [] allErrs = allErrs"
| "scopesLoop evs fldPath i (scope # rest) allErrs =
     (case charLoop fldPath i scope (runes scope) (allErrs, False) of
        (allErrs1, illegalCharacter) \<Rightarrow>
          if illegalCharacter then scopesLoop evs fldPath (i + 1) rest allErrs1
          else
            (case evaluatorLoop evs fldPath i scope (allErrs1, False) of
               (allErrs2, found) \<Rightarrow>
                 scopesLoop evs fldPath (i + 1) rest
                   (if \<not> found
                    then allErrs2 @ [Invalid (Index fldPath i) (VString scope) ''no scope handler found'']
                    else allErrs2)))"

definition ValidateScopes :: "Externals \<Rightarrow> string list \<Rightarrow> Path \<Rightarrow> ErrorList" where
  "ValidateScopes ext scopes fldPath = scopesLoop (ScopeEvaluators ext) fldPath 0 scopes []"

section \<open>Access tokens and authorize tokens\<close>

definition ValidateAccessToken :: "Externals \<Rightarrow> OAuthAccessToken \<Rightarrow> ErrorList" where
  "ValidateAccessToken ext accessToken =
     (let allErrs = ValidateObjectMeta ext (OAuthAccessToken.ObjectMeta accessToken) False
                      (ValidateTokenName ext) (NewPath ''metadata'' []);
          allErrs = allErrs @ ValidateClientNameField ext (OAuthAccessToken.ClientName accessToken)
                                (NewPath ''clientName'' []);
          allErrs = allErrs @ ValidateUserNameField ext (OAuthAccessToken.UserName accessToken)
                                (NewPath ''userName'' []);
          allErrs = allErrs @ ValidateScopes ext (OAuthAccessToken.Scopes accessToken)
                                (NewPath ''scopes'' []);
          allErrs = (if length (OAuthAccessToken.UserUID accessToken) = 0
                     then allErrs @ [Required (NewPath ''userUID'' []) []]
                     else allErrs);
          allErrs = (case ValidateRedirectURI ext (OAuthAccessToken.RedirectURI accessToken) of
                       (ok, msg) \<Rightarrow>
                         if \<not> ok
                         then allErrs @ [Invalid (NewPath ''redirectURI'' [])
                                           (VString (OAuthAccessToken.RedirectURI accessToken)) msg]
                         else allErrs)
      in allErrs)"

definition ValidateAccessTokenUpdate ::
  "Externals \<Rightarrow> OAuthAccessToken \<Rightarrow> OAuthAccessToken \<Rightarrow> ErrorList" where
  "ValidateAccessTokenUpdate ext newToken oldToken =
     (let allErrs = ValidateObjectMetaUpdate ext (OAuthAccessToken.ObjectMeta newToken)
                      (OAuthAccessToken.ObjectMeta oldToken) (NewPath ''metadata'' []);
          copied = oldToken;
          copied = copied\<lparr>OAuthAccessToken.ObjectMeta := OAuthAccessToken.ObjectMeta newToken\<rparr>
      in allErrs @ ValidateImmutableField ext (VAccessToken newToken) (VAccessToken copied)
                     (NewPath [] []))"

text \<open>
  \<^verbatim>\<open>codeChallengeRegex\<close> is \<^verbatim>\<open>^[a-zA-Z0-9._~-]{43,128}$\<close>, compiled without flags, so
  that \<^verbatim>\<open>$\<close> matches at the end of the text only: \<^verbatim>\<open>MatchString\<close> holds exactly
  when the string is 43 to 128 bytes of the class.
\<close>

definition codeChallengeChar :: "char \<Rightarrow> bool" where
  "codeChallengeChar c =
     (let n = (of_char c :: nat)
      in (97 \<le> n \<and> n \<le> 122) \<or> (65 \<le> n \<and> n \<le> 90) \<or> (48 \<le> n \<and> n \<le> 57)
         \<or> c = CHR ''.'' \<or> c = CHR ''_'' \<or> c = CHR ''~'' \<or> c = CHR ''-'')"

definition codeChallengeRegex_MatchString :: "string \<Rightarrow> bool" where
  "codeChallengeRegex_MatchString s =
     (43 \<le> length s \<and> length s \<le> 128 \<and> list_all codeChallengeChar s)"

text \<open>The two \<^verbatim>\<open>switch\<close> statements of the PKCE block, each returning the errors it appends.\<close>

definition codeChallengeErrs :: "OAuthAuthorizeToken \<Rightarrow> ErrorList" where
  "codeChallengeErrs authorizeToken =
     (if length (CodeChallenge authorizeToken) = 0
      then [Required (NewPath ''codeChallenge'' []) ''required if codeChallengeMethod is specified'']
      else if \<not> codeChallengeRegex_MatchString (CodeChallenge authorizeToken)
      then [Invalid (NewPath ''codeChallenge'' []) (VString (CodeChallenge authorizeToken))
              ''must be 43-128 characters [a-zA-Z0-9.~_-]'']
      else [])"

definition codeChallengeMethodErrs :: "OAuthAuthorizeToken \<Rightarrow> ErrorList" where
  "codeChallengeMethodErrs authorizeToken =
     (if CodeChallengeMethod authorizeToken = []
      then [Required (NewPath ''codeChallengeMethod'' []) ''required if codeChallenge is specified'']
      else if CodeChallengeMethod authorizeToken = codeChallengeMethodPlain
              \<or> CodeChallengeMethod authorizeToken = codeChallengeMethodSHA256
      then []
      else [NotSupported (NewPath ''codeChallengeMethod'' [])
              (VString (CodeChallengeMethod authorizeToken)) CodeChallengeMethodsSupported])"

definition ValidateAuthorizeToken :: "Externals \<Rightarrow> OAuthAuthorizeToken \<Rightarrow> ErrorList" where
  "ValidateAuthorizeToken ext authorizeToken =
     (let allErrs = ValidateObjectMeta ext (OAuthAuthorizeToken.ObjectMeta authorizeToken) False
                      (ValidateTokenName ext) (NewPath ''metadata'' []);
          allErrs = allErrs @ ValidateClientNameField ext (OAuthAuthorizeToken.ClientName authorizeToken)
                                (NewPath ''clientName'' []);
          allErrs = allErrs @ ValidateUserNameField ext (OAuthAuthorizeToken.UserName authorizeToken)
                                (NewPath ''userName'' []);
          allErrs = allErrs @ ValidateScopes ext (OAuthAuthorizeToken.Scopes authorizeToken)
                                (NewPath ''scopes'' []);
          allErrs = (if length (OAuthAuthorizeToken.UserUID authorizeToken) = 0
                     then allErrs @ [Required (NewPath ''userUID'' []) []]
                     else allErrs);
          allErrs = (case ValidateRedirectURI ext (OAuthAuthorizeToken.RedirectURI authorizeToken) of
                       (ok, msg) \<Rightarrow>
                         if \<not> ok
                         then allErrs @ [Invalid (NewPath ''redirectURI'' [])
                                           (VString (OAuthAuthorizeToken.RedirectURI authorizeToken)) msg]
                         else allErrs);
          allErrs = (if length (CodeChallenge authorizeToken) > 0
                        \<or> length (CodeChallengeMethod authorizeToken) > 0
                     then allErrs @ codeChallengeErrs authorizeToken
                                  @ codeChallengeMethodErrs authorizeToken
                     else allErrs)
      in allErrs)"

definition ValidateAuthorizeTokenUpdate ::
  "Externals \<Rightarrow> OAuthAuthorizeToken \<Rightarrow> OAuthAuthorizeToken \<Rightarrow> ErrorList" where
  "ValidateAuthorizeTokenUpdate ext newToken oldToken =
     (let allErrs = ValidateObjectMetaUpdate ext (OAuthAuthorizeToken.ObjectMeta newToken)
                      (OAuthAuthorizeToken.ObjectMeta oldToken) (NewPath ''metadata'' []);
          copied = oldToken;
          copied = copied\<lparr>OAuthAuthorizeToken.ObjectMeta := OAuthAuthorizeToken.ObjectMeta newToken\<rparr>
      in allErrs @ ValidateImmutableField ext (VAuthorizeToken newToken) (VAuthorizeToken copied)
                     (NewPath [] []))"

section \<open>Clients\<close>

fun literalsLoop :: "Path \<Rightarrow> nat \<Rightarrow> string list \<Rightarrow> ErrorList \<Rightarrow> ErrorList" where
  "literalsLoop fldPath i [] allErrs = allErrs"
| "literalsLoop fldPath i (literal # rest) allErrs =
     literalsLoop fldPath (i + 1) rest
       (if length literal = 0
        then allErrs @ [Invalid (Index (Child fldPath ''literals'' []) i) (VString literal)
                          ''may not be empty'']
        else allErrs)"

definition ValidateScopeRestriction :: "ScopeRestriction \<Rightarrow> Path \<Rightarrow> ErrorList" where
  "ValidateScopeRestriction restriction fldPath =
     (let allErrs = [];
          specifiers = (0::nat);
          specifiers = (if length (ExactValues restriction) > 0 then specifiers + 1 else specifiers);
          specifiers = (if ClusterRole restriction \<noteq> None then specifiers + 1 else specifiers)
      in if specifiers \<noteq> 1
         then allErrs @ [Invalid fldPath (VScopeRestriction restriction)
                           ''exactly one of literals, clusterRole is required'']
         else if length (ExactValues restriction) > 0
         then literalsLoop fldPath 0 (ExactValues restriction) allErrs
         else
           (case ClusterRole restriction of
              Some clusterRole \<Rightarrow>
                (let allErrs = (if length (RoleNames clusterRole) = 0
                                then allErrs @ [Required (Child fldPath ''clusterRole'' [''roleNames''])
                                                  ''won't match anything'']
                                else allErrs);
                     allErrs = (if length (Namespaces clusterRole) = 0
                                then allErrs @ [Required (Child fldPath ''clusterRole'' [''namespaces''])
                                                  ''won't match anything'']
                                else allErrs)
                 in allErrs)
            | None \<Rightarrow> allErrs))"

fun redirectURIsLoop :: "Externals \<Rightarrow> nat \<Rightarrow> string list \<Rightarrow> ErrorList \<Rightarrow> ErrorList" where
  "redirectURIsLoop ext i [] allErrs = allErrs"
| "redirectURIsLoop ext i (redirect # rest) allErrs =
     redirectURIsLoop ext (i + 1) rest
       (case ValidateRedirectURI ext redirect of
          (ok, msg) \<Rightarrow>
            if \<not> ok
            then allErrs @ [Invalid (Index (NewPath ''redirectURIs'' []) i) (VString redirect) msg]
            else allErrs)"

fun scopeRestrictionsLoop :: "nat \<Rightarrow> ScopeRestriction list \<Rightarrow> ErrorList \<Rightarrow> ErrorList" where
  "scopeRestrictionsLoop i [] allErrs = allErrs"
| "scopeRestrictionsLoop i (restriction # rest) allErrs =
     scopeRestrictionsLoop (i + 1) rest
       (allErrs @ ValidateScopeRestriction restriction (Index (NewPath ''scopeRestrictions'' []) i))"

definition ValidateClient :: "Externals \<Rightarrow> OAuthClient \<Rightarrow> ErrorList" where
  "ValidateClient ext client =
     (let allErrs = ValidateObjectMeta ext (OAuthClient.ObjectMeta client) False
                      (NameIsDNSSubdomain ext) (NewPath ''metadata'' []);
          allErrs = redirectURIsLoop ext 0 (RedirectURIs client) allErrs;
          allErrs = scopeRestrictionsLoop 0 (ScopeRestrictions client) allErrs
      in allErrs)"

definition ValidateClientUpdate :: "Externals \<Rightarrow> OAuthClient \<Rightarrow> OAuthClient \<Rightarrow> ErrorList" where
  "ValidateClientUpdate ext client oldClient =
     (let allErrs = [];
          allErrs = allErrs @ ValidateClient ext client;
          allErrs = allErrs @ ValidateObjectMetaUpdate ext (OAuthClient.ObjectMeta client)
                                (OAuthClient.ObjectMeta oldClient) (NewPath ''metadata'' [])
      in allErrs)"

section \<open>Client authorizations\<close>

definition ValidateClientAuthorization :: "Externals \<Rightarrow> OAuthClientAuthorization \<Rightarrow> ErrorList" where
  "ValidateClientAuthorization ext clientAuthorization =
     (let allErrs = [];
          expectedName = OAuthClientAuthorization.UserName clientAuthorization @ '':''
                           @ OAuthClientAuthorization.ClientName clientAuthorization;
          metadataErrs = ValidateObjectMeta ext (OAuthClientAuthorization.ObjectMeta clientAuthorization)
                           False (ValidateClientAuthorizationName ext) (NewPath ''metadata'' []);
          allErrs = (if length metadataErrs > 0 then allErrs @ metadataErrs
                     else if Name (OAuthClientAuthorization.ObjectMeta clientAuthorization) \<noteq> expectedName
                     then allErrs @ [Invalid (NewPath ''metadata'' [''name''])
                                       (VString (Name (OAuthClientAuthorization.ObjectMeta clientAuthorization)))
                                       ''must be in the format <userName>:<clientName>'']
                     else allErrs);
          allErrs = allErrs @ ValidateClientNameField ext
                                (OAuthClientAuthorization.ClientName clientAuthorization)
                                (NewPath ''clientName'' []);
          allErrs = allErrs @ ValidateUserNameField ext
                                (OAuthClientAuthorization.UserName clientAuthorization)
                                (NewPath ''userName'' []);
          allErrs = allErrs @ ValidateScopes ext (OAuthClientAuthorization.Scopes clientAuthorization)
                                (NewPath ''scopes'' []);
          allErrs = (if length (OAuthClientAuthorization.UserUID clientAuthorization) = 0
                     then allErrs @ [Required (NewPath ''useruid'' []) []]
                     else allErrs)
      in allErrs)"

definition ValidateClientAuthorizationUpdate ::
  "Externals \<Rightarrow> OAuthClientAuthorization \<Rightarrow> OAuthClientAuthorization \<Rightarrow> ErrorList" where
  "ValidateClientAuthorizationUpdate ext newAuth oldAuth =
     (let allErrs = ValidateClientAuthorization ext newAuth;
          allErrs = allErrs @ ValidateObjectMetaUpdate ext (OAuthClientAuthorization.ObjectMeta newAuth)
                                (OAuthClientAuthorization.ObjectMeta oldAuth) (NewPath ''metadata'' []);
          allErrs = (if OAuthClientAuthorization.ClientName oldAuth
                          \<noteq> OAuthClientAuthorization.ClientName newAuth
                     then allErrs @ [Invalid (NewPath ''clientName'' [])
                                       (VString (OAuthClientAuthorization.ClientName newAuth))
                                       ''clientName is not a mutable field'']
                     else allErrs);
          allErrs = (if OAuthClientAuthorization.UserName oldAuth
                          \<noteq> OAuthClientAuthorization.UserName newAuth
                     then allErrs @ [Invalid (NewPath ''userName'' [])
                                       (VString (OAuthClientAuthorization.UserName newAuth))
                                       ''userName is not a mutable field'']
                     else allErrs);
          allErrs = (if OAuthClientAuthorization.UserUID oldAuth
                          \<noteq> OAuthClientAuthorization.UserUID newAuth
                     then allErrs @ [Invalid (NewPath ''userUID'' [])
                                       (VString (OAuthClientAuthorization.UserUID newAuth))
                                       ''userUID is not a mutable field'']
                     else allErrs)
      in allErrs)"

section \<open>Reference definitions\<close>

text \<open>
  The character set of a scope token (RFC 6749, section 3.3): \<^verbatim>\<open>%x21 / %x23-5B / %x5D-7E\<close>.
\<close>

definition scopeCharAllowed :: "int \<Rightarrow> bool" where
  "scopeCharAllowed ch = (ch = 33 \<or> (35 \<le> ch \<and> ch \<le> 91) \<or> (93 \<le> ch \<and> ch \<le> 126))"

text \<open>
  The text of the first error that a handling evaluator returns for a scope, in
  registration order; \<open>None\<close> when every evaluator that handles the scope accepts it.
\<close>

fun firstRejection :: "ScopeEvaluator list \<Rightarrow> string \<Rightarrow> string option" where
  "firstRejection [] scope = None"
| "firstRejection (e # es) scope =
     (if Handles e scope
      then (case Validate e scope of Some err \<Rightarrow> Some err | None \<Rightarrow> firstRejection es scope)
      else firstRejection es scope)"

section \<open>A concrete set of collaborators\<close>

text \<open>
  One instance of the external collaborators, small enough to evaluate, on which the
  theorems are exercised. The name check refuses \<^verbatim>\<open>.\<close>, \<^verbatim>\<open>..\<close> and names holding
  \<^verbatim>\<open>/\<close> or \<^verbatim>\<open>%\<close>; the metadata validator reports the reasons of the name function
  at \<^verbatim>\<open>metadata.name\<close>; the immutable-field check compares its two values; the URL
  parser cuts the fragment at \<^verbatim>\<open>#\<close> and takes the path of an \<^verbatim>\<open>http://\<close> URL from
  the first \<^verbatim>\<open>/\<close> after the host, without cleaning it.
\<close>

definition sample_MinimalNameRequirements :: "string \<Rightarrow> bool \<Rightarrow> string list" where
  "sample_MinimalNameRequirements name prefix =
     (if name = ''.'' \<or> name = ''..'' then [''name may not be '' @ name]
      else if CHR ''/'' \<in> set name then [''name may not contain /'']
      else if CHR ''%'' \<in> set name then [''name may not contain %'']
      else [])"

definition sample_ValidateObjectMeta ::
  "ObjectMeta \<Rightarrow> bool \<Rightarrow> (string \<Rightarrow> bool \<Rightarrow> string list) \<Rightarrow> Path \<Rightarrow> ErrorList" where
  "sample_ValidateObjectMeta meta requiresNamespace nameFn fldPath =
     map (Invalid (Child fldPath ''name'' []) (VString (Name meta))) (nameFn (Name meta) False)"

definition sample_ValidateObjectMetaUpdate :: "ObjectMeta \<Rightarrow> ObjectMeta \<Rightarrow> Path \<Rightarrow> ErrorList" where
  "sample_ValidateObjectMetaUpdate newMeta oldMeta fldPath =
     (if Name newMeta = Name oldMeta then []
      else [Invalid (Child fldPath ''name'' []) (VString (Name newMeta)) ''field is immutable''])"

definition sample_ValidateImmutableField :: "Value \<Rightarrow> Value \<Rightarrow> Path \<Rightarrow> ErrorList" where
  "sample_ValidateImmutableField newVal oldVal fldPath =
     (if newVal = oldVal then [] else [Invalid fldPath newVal ''field is immutable''])"

definition sample_NameCheck :: "string \<Rightarrow> bool \<Rightarrow> string list" where
  "sample_NameCheck name prefix = (if CHR '' '' \<in> set name then [''must not contain a space''] else [])"

definition sample_SplitUsername :: "string \<Rightarrow> string + (string \<times> string)" where
  "sample_SplitUsername username = Inl ''Username must be in the form system:serviceaccount:namespace:name''"

fun sample_Parse_path :: "string \<Rightarrow> string" where
  "sample_Parse_path [] = []"
| "sample_Parse_path (c # cs) = (if c = CHR ''/'' then c # cs else sample_Parse_path cs)"

definition sample_Parse :: "string \<Rightarrow> string + URL" where
  "sample_Parse rawurl =
     (let u = takeWhile (\<lambda>c. c \<noteq> CHR ''#'') rawurl;
          frag = drop (length u + 1) rawurl
      in if take 7 u = ''http://'' then Inr \<lparr>Path = sample_Parse_path (drop 7 u), Fragment = frag\<rparr>
         else Inl ''unsupported'')"

definition sample_userEvaluator :: ScopeEvaluator where
  "sample_userEvaluator =
     \<lparr>Handles = (\<lambda>scope. take 5 scope = ''user:''),
      Validate = (\<lambda>scope. if scope = ''user:info'' \<or> scope = ''user:full'' then None
                           else Some ''unrecognized scope'')\<rparr>"

definition sample_Externals :: Externals where
  "sample_Externals =
     \<lparr>MinimalNameRequirements = sample_MinimalNameRequirements,
      ValidateObjectMeta = sample_ValidateObjectMeta,
      ValidateObjectMetaUpdate = sample_ValidateObjectMetaUpdate,
      ValidateImmutableField = sample_ValidateImmutableField,
      NameIsDNSSubdomain = sample_NameCheck,
      ValidateServiceAccountName = sample_NameCheck,
      SplitUsername = sample_SplitUsername,
      ValidateUserName = sample_NameCheck,
      url_Parse = sample_Parse,
      ScopeEvaluators = [sample_userEvaluator]\<rparr>"

text \<open>A second evaluator for the same prefix, which refuses every scope.\<close>

definition sample_strictEvaluator :: ScopeEvaluator where
  "sample_strictEvaluator =
     \<lparr>Handles = (\<lambda>scope. take 5 scope = ''user:''),
      Validate = (\<lambda>scope. Some ''refused by the second evaluator'')\<rparr>"

definition sample_twoEvaluators :: Externals where
  "sample_twoEvaluators =
     sample_Externals\<lparr>ScopeEvaluators := [sample_userEvaluator, sample_strictEvaluator]\<rparr>"

text \<open>Objects that the sample collaborators accept.\<close>

definition sample_meta :: ObjectMeta where
  "sample_meta =
     \<lparr>Name = ''tokentokentokentokentokentokentoken'', GenerateName = [], Namespace = [],
      ResourceVersion = ''1'', Labels = [], Annotations = []\<rparr>"

definition sample_accessToken :: OAuthAccessToken where
  "sample_accessToken =
     \<lparr>OAuthAccessToken.ObjectMeta = sample_meta, ClientName = ''app'', Scopes = [''user:info''],
      RedirectURI = [], UserName = ''bob'', UserUID = ''1234''\<rparr>"

definition sample_authorizeToken :: OAuthAuthorizeToken where
  "sample_authorizeToken =
     \<lparr>OAuthAuthorizeToken.ObjectMeta = sample_meta, ClientName = ''app'', Scopes = [''user:info''],
      RedirectURI = [], UserName = ''bob'', UserUID = ''1234'',
      CodeChallenge = [], CodeChallengeMethod = []\<rparr>"

definition sample_clientAuthorization :: OAuthClientAuthorization where
  "sample_clientAuthorization =
     \<lparr>OAuthClientAuthorization.ObjectMeta = sample_meta\<lparr>Name := ''bob:app''\<rparr>, ClientName = ''app'',
      UserName = ''bob'', UserUID = ''1234'', Scopes = [''user:info'']\<rparr>"

definition sample_client :: OAuthClient where
  "sample_client =
     \<lparr>OAuthClient.ObjectMeta = sample_meta\<lparr>Name := ''app''\<rparr>,
      RedirectURIs = [''http://x/../y''],
      ScopeRestrictions = [\<lparr>ExactValues = [], ClusterRole = None\<rparr>]\<rparr>"

section \<open>Formatting\<close>

lemma formatInt_32: "formatInt 32 = ''32''"
  by (simp add: formatInt_def)

section \<open>Token names\<close>

text \<open>
  C8. For every string \<open>s\<close> shorter than 32 bytes, \<open>ValidateTokenName s false\<close> returns
  at least one reason: the reasons of the minimal-name check when it has any, and
  otherwise the single reason "must be at least 32 characters long".
\<close>

theorem C8_short_token_name:
  "length s < 32 \<Longrightarrow>
     ValidateTokenName ext s False \<noteq> []
     \<and> (ValidateTokenName ext s False = MinimalNameRequirements ext s False
        \<or> ValidateTokenName ext s False = [''must be at least 32 characters long''])"
  by (simp add: ValidateTokenName_def Let_def formatInt_32 MinTokenLength_def)

theorem C8_short_token_name_witness:
  "length ''abc'' < 32
   \<and> ValidateTokenName sample_Externals ''abc'' False = [''must be at least 32 characters long'']"
  using C8_short_token_name [of "''abc''" sample_Externals]
  by (simp add: sample_Externals_def sample_MinimalNameRequirements_def ValidateTokenName_def
        Let_def formatInt_32 MinTokenLength_def)

text \<open>
  C3 (as stated, refuted). The name \<^verbatim>\<open>.\<close> fails the minimal-name check and is shorter
  than 32 bytes, and \<open>ValidateTokenName\<close> does not report the length reason for it.
\<close>

theorem C3_name_validators_stop_at_first_counterexample:
  "MinimalNameRequirements sample_Externals ''.'' False \<noteq> []
   \<and> length ''.'' < 32
   \<and> ''must be at least 32 characters long'' \<notin> set (ValidateTokenName sample_Externals ''.'' False)"
  by (simp add: sample_Externals_def sample_MinimalNameRequirements_def ValidateTokenName_def Let_def)

text \<open>
  C3 (amended). The two name validators return at the first check that fails: when the
  minimal-name check has reasons, \<open>ValidateTokenName\<close> and
  \<open>ValidateClientAuthorizationName\<close> return exactly those reasons; the length check and
  the colon-format check run only when it has none, and then decide the result alone.
\<close>

theorem C3_name_validators_stop_at_first:
  "(MinimalNameRequirements ext name prefix \<noteq> [] \<longrightarrow>
      ValidateTokenName ext name prefix = MinimalNameRequirements ext name prefix
      \<and> ValidateClientAuthorizationName ext name prefix = MinimalNameRequirements ext name prefix)
   \<and> (MinimalNameRequirements ext name prefix = [] \<longrightarrow>
      ValidateTokenName ext name prefix =
        (if length name < 32 then [''must be at least 32 characters long''] else [])
      \<and> ValidateClientAuthorizationName ext name prefix =
        (if strings_Index name CHR '':'' \<le> 0
            \<or> strings_Index name CHR '':'' \<ge> int (length name) - 1
         then [''must be in the format <userName>:<clientName>''] else []))"
  by (simp add: ValidateTokenName_def ValidateClientAuthorizationName_def Let_def formatInt_32
        MinTokenLength_def)

theorem C3_name_validators_stop_at_first_witness:
  "MinimalNameRequirements sample_Externals ''.'' False \<noteq> []
   \<and> ValidateTokenName sample_Externals ''.'' False = [''name may not be .'']
   \<and> ValidateClientAuthorizationName sample_Externals ''.'' False = [''name may not be .'']
   \<and> MinimalNameRequirements sample_Externals ''bobapp'' False = []
   \<and> ValidateTokenName sample_Externals ''bobapp'' False = [''must be at least 32 characters long'']
   \<and> ValidateClientAuthorizationName sample_Externals ''bobapp'' False
       = [''must be in the format <userName>:<clientName>'']"
  using C3_name_validators_stop_at_first [of sample_Externals "''.''" False]
        C3_name_validators_stop_at_first [of sample_Externals "''bobapp''" False]
  by (simp add: sample_Externals_def sample_MinimalNameRequirements_def)

section \<open>Scope restrictions\<close>

lemma literalsLoop_eq:
  "literalsLoop p i lits errs =
     errs @ map (\<lambda>(k, l). Invalid (Index (Child p ''literals'' []) k) (VString l) ''may not be empty'')
              (filter (\<lambda>(k, l). l = []) (enumerate i lits))"
  by (induction lits arbitrary: i errs) auto

text \<open>
  C7. A scope restriction with neither or both of \<open>ExactValues\<close> (non-empty) and
  \<open>ClusterRole\<close> (non-nil) populated yields exactly one error, "exactly one of literals,
  clusterRole is required", at the restriction's path and no sub-field error. The
  per-variant checks run when exactly one variant is populated: one "may not be empty"
  error for each empty literal, or the "won't match anything" errors for empty
  \<open>roleNames\<close> and \<open>namespaces\<close>.
\<close>

theorem C7_scope_restriction_exactly_one:
  "((length (ExactValues r) > 0) = (ClusterRole r \<noteq> None) \<longrightarrow>
      ValidateScopeRestriction r p =
        [Invalid p (VScopeRestriction r) ''exactly one of literals, clusterRole is required''])
   \<and> (length (ExactValues r) > 0 \<and> ClusterRole r = None \<longrightarrow>
      ValidateScopeRestriction r p =
        map (\<lambda>(k, l). Invalid (Index (Child p ''literals'' []) k) (VString l) ''may not be empty'')
          (filter (\<lambda>(k, l). l = []) (enumerate 0 (ExactValues r))))
   \<and> (ExactValues r = [] \<and> ClusterRole r = Some cr \<longrightarrow>
      ValidateScopeRestriction r p =
        (if RoleNames cr = []
         then [Required (Child p ''clusterRole'' [''roleNames'']) ''won't match anything'']
         else [])
        @ (if Namespaces cr = []
           then [Required (Child p ''clusterRole'' [''namespaces'']) ''won't match anything'']
           else []))"
  by (auto simp: ValidateScopeRestriction_def Let_def literalsLoop_eq)

theorem C7_scope_restriction_exactly_one_witness:
  "ValidateScopeRestriction \<lparr>ExactValues = [], ClusterRole = None\<rparr> (NewPath ''scopeRestrictions'' [])
     = [Invalid (NewPath ''scopeRestrictions'' []) (VScopeRestriction \<lparr>ExactValues = [], ClusterRole = None\<rparr>)
          ''exactly one of literals, clusterRole is required'']
   \<and> ValidateScopeRestriction
        \<lparr>ExactValues = [[]], ClusterRole = Some \<lparr>RoleNames = [], Namespaces = [], AllowEscalation = False\<rparr>\<rparr>
        (NewPath ''scopeRestrictions'' [])
     = [Invalid (NewPath ''scopeRestrictions'' [])
          (VScopeRestriction
             \<lparr>ExactValues = [[]],
              ClusterRole = Some \<lparr>RoleNames = [], Namespaces = [], AllowEscalation = False\<rparr>\<rparr>)
          ''exactly one of literals, clusterRole is required'']
   \<and> ValidateScopeRestriction \<lparr>ExactValues = [''a'', []], ClusterRole = None\<rparr> (NewPath ''r'' [])
     = [Invalid (Index (Child (NewPath ''r'' []) ''literals'' []) 1) (VString []) ''may not be empty'']
   \<and> ValidateScopeRestriction
        \<lparr>ExactValues = [], ClusterRole = Some \<lparr>RoleNames = [], Namespaces = [''n''], AllowEscalation = False\<rparr>\<rparr>
        (NewPath ''r'' [])
     = [Required (Child (NewPath ''r'' []) ''clusterRole'' [''roleNames'']) ''won't match anything'']"
  using C7_scope_restriction_exactly_one
          [of "\<lparr>ExactValues = [], ClusterRole = None\<rparr>" "NewPath ''scopeRestrictions'' []"]
        C7_scope_restriction_exactly_one
          [of "\<lparr>ExactValues = [[]], ClusterRole = Some \<lparr>RoleNames = [], Namespaces = [], AllowEscalation = False\<rparr>\<rparr>"
              "NewPath ''scopeRestrictions'' []"]
        C7_scope_restriction_exactly_one
          [of "\<lparr>ExactValues = [''a'', []], ClusterRole = None\<rparr>" "NewPath ''r'' []"]
        C7_scope_restriction_exactly_one
          [of "\<lparr>ExactValues = [], ClusterRole = Some \<lparr>RoleNames = [], Namespaces = [''n''], AllowEscalation = False\<rparr>\<rparr>"
              "NewPath ''r'' []" "\<lparr>RoleNames = [], Namespaces = [''n''], AllowEscalation = False\<rparr>"]
  by simp

section \<open>Runes of a string\<close>

text \<open>
  A rune decoded from a leading byte of \<^verbatim>\<open>0x80\<close> or more is at least \<^verbatim>\<open>0x80\<close>, and
  so are the bytes it consumes; hence the runes of a string hold the space \<^verbatim>\<open>0x20\<close>
  exactly as often as its bytes do.
\<close>

lemma mod_shift: "k < m \<Longrightarrow> (m * q + k) mod m = (k::nat)"
  by simp

lemma rune2_ge:
  assumes "194 \<le> s0" "s0 < 224"
  shows "(128::nat) \<le> (s0 mod 32) * 64 + x"
proof -
  define k where "k = s0 - 192"
  from assms have k: "s0 = 32 * 6 + k" "2 \<le> k" "k < 32"
    by (simp_all add: k_def)
  have "s0 mod 32 = k"
    unfolding k(1) using k(3) by (rule mod_shift)
  with k show ?thesis by simp
qed

lemma rune3_ge:
  assumes "224 \<le> s0" "s0 < 240" "acceptLo s0 \<le> s1" "s1 \<le> 191"
  shows "(128::nat) \<le> (s0 mod 16) * 4096 + (s1 mod 64) * 64 + x"
proof (cases "s0 = 224")
  case True
  define k where "k = s1 - 128"
  from True assms have k: "s1 = 64 * 2 + k" "32 \<le> k" "k < 64"
    by (simp_all add: k_def acceptLo_def)
  have "s1 mod 64 = k"
    unfolding k(1) using k(3) by (rule mod_shift)
  with k show ?thesis by simp
next
  case False
  define k where "k = s0 - 224"
  from False assms have k: "s0 = 16 * 14 + k" "1 \<le> k" "k < 16"
    by (simp_all add: k_def)
  have "s0 mod 16 = k"
    unfolding k(1) using k(3) by (rule mod_shift)
  with k show ?thesis by simp
qed

lemma rune4_ge:
  assumes "240 \<le> s0" "s0 \<le> 244" "acceptLo s0 \<le> s1" "s1 \<le> 191"
  shows "(128::nat) \<le> (s0 mod 8) * 262144 + (s1 mod 64) * 4096 + x"
proof (cases "s0 = 240")
  case True
  define k where "k = s1 - 128"
  from True assms have k: "s1 = 64 * 2 + k" "16 \<le> k" "k < 64"
    by (simp_all add: k_def acceptLo_def)
  have "s1 mod 64 = k"
    unfolding k(1) using k(3) by (rule mod_shift)
  with k show ?thesis by simp
next
  case False
  define k where "k = s0 - 240"
  from False assms have k: "s0 = 8 * 30 + k" "1 \<le> k" "k < 8"
    by (simp_all add: k_def)
  have "s0 mod 8 = k"
    unfolding k(1) using k(3) by (rule mod_shift)
  with k show ?thesis by simp
qed


lemma count_list_drop:
  "k \<le> length bs \<Longrightarrow> list_all (\<lambda>y. y \<noteq> x) (take k bs) \<Longrightarrow> count_list (drop k bs) x = count_list bs x"
proof (induction bs arbitrary: k)
  case Nil
  then show ?case by simp
next
  case (Cons a bs)
  then show ?case by (cases k) auto
qed

lemma take_nth_1: "Suc 0 \<le> length bs \<Longrightarrow> take (Suc 0) bs = [bs ! 0]"
  by (cases bs) auto

lemma take_nth_2: "2 \<le> length bs \<Longrightarrow> take 2 bs = [bs ! 0, bs ! 1]"
proof -
  assume len: "2 \<le> length bs"
  then obtain a t1 where 1: "bs = a # t1" by (cases bs) auto
  with len obtain b t2 where 2: "t1 = b # t2" by (cases t1) auto
  show ?thesis by (simp add: 1 2)
qed

lemma take_nth_3: "3 \<le> length bs \<Longrightarrow> take 3 bs = [bs ! 0, bs ! 1, bs ! 2]"
proof -
  assume len: "3 \<le> length bs"
  then obtain a t1 where 1: "bs = a # t1" by (cases bs) auto
  with len obtain b t2 where 2: "t1 = b # t2" by (cases t1) auto
  with len 1 obtain c t3 where 3: "t2 = c # t3" by (cases t2) auto
  show ?thesis by (simp add: 1 2 3)
qed

lemma seqSize_cases: "seqSize b = 2 \<and> b < 224 \<or> seqSize b = 3 \<and> 224 \<le> b \<and> b < 240 \<or> seqSize b = 4 \<and> 240 \<le> b"
  by (simp add: seqSize_def)

lemma DecodeRune_high:
  assumes D: "DecodeRune (b # bs) = (r, w)" and hi: "128 \<le> b"
  shows "128 \<le> r \<and> w - 1 \<le> length bs \<and> list_all (\<lambda>y. 128 \<le> y) (take (w - 1) bs)"
proof (cases "b < 194 \<or> 244 < b \<or> length (b # bs) < seqSize b
              \<or> bs ! 0 < acceptLo b \<or> acceptHi b < bs ! 0")
  case True
  with D hi have "r = RuneError \<and> w = 1" by (auto split: if_splits)
  then show ?thesis by (simp add: RuneError_def)
next
  case False
  then have lead: "194 \<le> b" "b \<le> 244" and len: "seqSize b \<le> Suc (length bs)"
    and s1: "acceptLo b \<le> bs ! 0" "bs ! 0 \<le> acceptHi b"
    by auto
  have s1': "128 \<le> bs ! 0" "bs ! 0 \<le> 191"
    using s1 by (auto simp: acceptLo_def acceptHi_def split: if_splits)
  from False D hi
  have D1: "(if seqSize b \<le> 2 then (int ((b mod 32) * 64 + bs ! 0 mod 64), 2)
      else if bs ! 1 < 128 \<or> 191 < bs ! 1 then (RuneError, 1)
      else if seqSize b \<le> 3
      then (int ((b mod 16) * 4096 + (bs ! 0 mod 64) * 64 + bs ! 1 mod 64), 3)
      else if bs ! 2 < 128 \<or> 191 < bs ! 2 then (RuneError, 1)
      else (int ((b mod 8) * 262144 + (bs ! 0 mod 64) * 4096
                  + (bs ! 1 mod 64) * 64 + bs ! 2 mod 64), 4)) = (r, w)"
    by simp
  consider (two) "seqSize b = 2" "b < 224" | (three) "seqSize b = 3" "224 \<le> b" "b < 240"
    | (four) "seqSize b = 4" "240 \<le> b"
    using seqSize_cases [of b] by blast
  then show ?thesis
  proof cases
    case two
    with D1 have rw: "r = int ((b mod 32) * 64 + bs ! 0 mod 64)" "w = 2" by simp_all
    from two len have l: "1 \<le> length bs" by simp
    have "128 \<le> (b mod 32) * 64 + bs ! 0 mod 64" using lead(1) two(2) by (rule rune2_ge)
    then have "128 \<le> r" unfolding rw by linarith
    then show ?thesis using l s1' by (simp add: rw take_nth_1)
  next
    case three
    from three len have l: "2 \<le> length bs" by simp
    show ?thesis
    proof (cases "bs ! 1 < 128 \<or> 191 < bs ! 1")
      case True
      with D1 three have "r = RuneError \<and> w = 1" by simp
      then show ?thesis by (simp add: RuneError_def)
    next
      case False
      with D1 three
      have rw: "r = int ((b mod 16) * 4096 + (bs ! 0 mod 64) * 64 + bs ! 1 mod 64)" "w = 3"
        by simp_all
      have "128 \<le> (b mod 16) * 4096 + (bs ! 0 mod 64) * 64 + bs ! 1 mod 64"
        using three(2,3) s1(1) s1'(2) by (rule rune3_ge)
      then have "128 \<le> r" unfolding rw by linarith
      then show ?thesis using l s1' False by (simp add: rw take_nth_2)
    qed
  next
    case four
    from four len have l: "3 \<le> length bs" by simp
    show ?thesis
    proof (cases "bs ! 1 < 128 \<or> 191 < bs ! 1 \<or> bs ! 2 < 128 \<or> 191 < bs ! 2")
      case True
      with D1 four have "r = RuneError \<and> w = 1" by (auto split: if_splits)
      then show ?thesis by (simp add: RuneError_def)
    next
      case False
      with D1 four
      have rw: "r = int ((b mod 8) * 262144 + (bs ! 0 mod 64) * 4096
                  + (bs ! 1 mod 64) * 64 + bs ! 2 mod 64)" "w = 4"
        by simp_all
      have "128 \<le> (b mod 8) * 262144 + (bs ! 0 mod 64) * 4096
                  + ((bs ! 1 mod 64) * 64 + bs ! 2 mod 64)"
        using four(2) lead(2) s1(1) s1'(2) by (rule rune4_ge)
      then have "128 \<le> r" unfolding rw by linarith
      then show ?thesis using l s1' False by (simp add: rw take_nth_3)
    qed
  qed
qed

lemma count_list_decodeAll_space: "count_list (decodeAll bs) 32 = count_list bs 32"
proof (induction bs rule: decodeAll.induct)
  case 1
  show ?case by simp
next
  case (2 b bs)
  obtain r w where D: "DecodeRune (b # bs) = (r, w)" by (cases "DecodeRune (b # bs)")
  have IH: "count_list (decodeAll (drop w (b # bs))) 32 = count_list (drop w (b # bs)) 32"
    using "2.IH" [OF D [symmetric]] .
  have w1: "1 \<le> w" using D by (rule DecodeRune_width)
  have step: "decodeAll (b # bs) = r # decodeAll (drop w (b # bs))"
    using D by simp
  show ?case
  proof (cases "b < 128")
    case True
    with D have "r = int b" "w = 1" by simp_all
    then show ?thesis using IH step by simp
  next
    case False
    then have "128 \<le> b" by simp
    from DecodeRune_high [OF D this]
    have r: "128 \<le> r" and l: "w - 1 \<le> length bs"
      and a: "list_all (\<lambda>y. 128 \<le> y) (take (w - 1) bs)"
      by simp_all
    from a have "list_all (\<lambda>y. y \<noteq> 32) (take (w - 1) bs)"
      by (auto simp: list_all_iff)
    with l have "count_list (drop (w - 1) bs) 32 = count_list bs 32"
      by (rule count_list_drop)
    moreover have "drop w (b # bs) = drop (w - 1) bs"
      using w1 by (cases w) simp_all
    ultimately show ?thesis using IH step r False by simp
  qed
qed

lemma of_char_space: "(of_char c = (32::nat)) = (c = CHR '' '')"
proof -
  have "(of_char c = (32::nat)) = (of_char c = (of_char (CHR '' '') :: nat))" by simp
  also have "\<dots> = (c = CHR '' '')" by (simp only: of_char_eq_iff)
  finally show ?thesis .
qed

lemma count_list_map_of_char: "count_list (map of_char s) (32::nat) = count_list s CHR '' ''"
  by (induction s) (simp_all add: of_char_space)

lemma count_runes_space: "count_list (runes s) 32 = count_list s CHR '' ''"
  by (simp add: runes_def count_list_decodeAll_space count_list_map_of_char)

section \<open>Decimal formatting of a rune\<close>

lemma decimal_nonempty: "decimal n \<noteq> []"
  by (subst decimal.simps) simp

lemma digit_inj:
  "k < 10 \<Longrightarrow> j < 10 \<Longrightarrow> (''0123456789'' ! k = ''0123456789'' ! j) = (k = j)"
  by (rule nth_eq_iff_index_eq) simp_all

lemma decimal_32_only: "decimal n = ''32'' \<Longrightarrow> n = 32"
proof -
  assume d: "decimal n = ''32''"
  have big: "\<not> n < 10"
  proof
    assume "n < 10"
    then have "decimal n = [''0123456789'' ! n]" by (subst decimal.simps) simp
    with d show False by simp
  qed
  then have "decimal n = decimal (n div 10) @ [''0123456789'' ! (n mod 10)]"
    by (subst decimal.simps) simp
  with d have "decimal (n div 10) @ [''0123456789'' ! (n mod 10)] = ''3'' @ [CHR ''2'']"
    by simp
  then have hi: "decimal (n div 10) = ''3''" and lo: "''0123456789'' ! (n mod 10) = CHR ''2''"
    by (simp_all only: append1_eq_conv)
  have "''0123456789'' ! (n mod 10) = ''0123456789'' ! 2" using lo by simp
  then have m: "n mod 10 = 2" by (subst (asm) digit_inj) simp_all
  have small: "n div 10 < 10"
  proof (rule ccontr)
    assume "\<not> n div 10 < 10"
    then have "decimal (n div 10) = decimal (n div 10 div 10) @ [''0123456789'' ! (n div 10 mod 10)]"
      by (subst decimal.simps) simp
    with hi decimal_nonempty [of "n div 10 div 10"] show False by (cases "decimal (n div 10 div 10)") simp_all
  qed
  then have "decimal (n div 10) = [''0123456789'' ! (n div 10)]" by (subst decimal.simps) simp
  with hi have "''0123456789'' ! (n div 10) = ''0123456789'' ! 3" by simp
  then have q: "n div 10 = 3" using small by (subst (asm) digit_inj) simp_all
  have "n = 10 * (n div 10) + n mod 10" by simp
  then show ?thesis unfolding q m by simp
qed

lemma formatInt_32_iff: "(formatInt ch = ''32'') = (ch = 32)"
proof
  assume f: "formatInt ch = ''32''"
  show "ch = 32"
  proof (cases "ch < 0")
    case True
    with f show ?thesis by (simp add: formatInt_def)
  next
    case False
    with f have "decimal (nat ch) = ''32''" by (simp add: formatInt_def)
    then have "nat ch = 32" by (rule decimal_32_only)
    with False show ?thesis by simp
  qed
next
  assume "ch = 32"
  then show "formatInt ch = ''32''" by (simp add: formatInt_32)
qed

section \<open>The loops of the scope validator\<close>

text \<open>
  \<open>scopesLoop evs p i [scope] []\<close> is the list of errors that one pass of the outer
  loop appends for the scope at index \<open>i\<close>.
\<close>

lemma charLoop_eq:
  "charLoop p i s chs (errs, ill) =
     (errs @ map (\<lambda>ch. Invalid (Index p i) (VString s) (formatInt ch @ '' not allowed''))
               (filter (\<lambda>ch. \<not> scopeCharAllowed ch) chs),
      ill \<or> \<not> list_all scopeCharAllowed chs)"
  by (induction chs arbitrary: errs ill) (auto simp: scopeCharAllowed_def)

lemma evaluatorLoop_eq:
  "evaluatorLoop evs p i s (errs, found) =
     (case firstRejection evs s of
        Some err \<Rightarrow> (errs @ [Invalid (Index p i) (VString s) err], True)
      | None \<Rightarrow> (errs, found \<or> list_ex (\<lambda>e. Handles e s) evs))"
  by (induction evs arbitrary: errs found) (auto split: option.splits)

lemma scopesLoop_acc:
  "scopesLoop evs p i scopes errs = errs @ scopesLoop evs p i scopes []"
proof (induction scopes arbitrary: i errs)
  case Nil
  show ?case by simp
next
  case (Cons s rest)
  show ?case
    apply (simp add: charLoop_eq evaluatorLoop_eq split: option.splits)
    apply (intro conjI impI allI)
    apply (subst Cons.IH, subst (2) Cons.IH, simp)+
    done
qed

lemma scopesLoop_Cons:
  "scopesLoop evs p i (s # rest) [] = scopesLoop evs p i [s] [] @ scopesLoop evs p (Suc i) rest []"
  apply (simp add: charLoop_eq evaluatorLoop_eq split: option.splits)
  apply (intro conjI impI allI)
  apply (subst scopesLoop_acc, simp)+
  done

lemma scopesLoop_concat:
  "scopesLoop evs p i scopes [] =
     concat (map (\<lambda>(k, s). scopesLoop evs p k [s] []) (enumerate i scopes))"
proof (induction scopes arbitrary: i)
  case Nil
  show ?case by simp
next
  case (Cons s rest)
  show ?case
    using Cons.IH [of "Suc i"] by (simp add: scopesLoop_Cons [of evs p i s rest] del: scopesLoop.simps)
qed

lemma scopesLoop_illegal:
  "\<not> list_all scopeCharAllowed (runes scope) \<Longrightarrow>
     scopesLoop evs p i [scope] [] =
       map (\<lambda>ch. Invalid (Index p i) (VString scope) (formatInt ch @ '' not allowed''))
         (filter (\<lambda>ch. \<not> scopeCharAllowed ch) (runes scope))"
  by (simp add: charLoop_eq)

lemma scopesLoop_legal:
  "list_all scopeCharAllowed (runes scope) \<Longrightarrow>
     scopesLoop evs p i [scope] [] =
       (case firstRejection evs scope of
          Some err \<Rightarrow> [Invalid (Index p i) (VString scope) err]
        | None \<Rightarrow> if list_ex (\<lambda>e. Handles e scope) evs then []
                  else [Invalid (Index p i) (VString scope) ''no scope handler found''])"
proof -
  assume ok: "list_all scopeCharAllowed (runes scope)"
  then have "filter (\<lambda>ch. \<not> scopeCharAllowed ch) (runes scope) = []"
    by (simp add: list_all_iff)
  with ok show ?thesis
    by (simp add: charLoop_eq evaluatorLoop_eq split: option.splits)
qed

lemma count_space_errors:
  "length (filter (\<lambda>e. e = Invalid q v ''32 not allowed'')
             (map (\<lambda>ch. Invalid q v (formatInt ch @ '' not allowed'')) chs))
   = count_list chs 32"
  by (induction chs) (simp_all add: formatInt_32_iff)

section \<open>Evaluator dispatch\<close>

lemma ValidateScopes_snoc:
  "ValidateScopes ext (before @ [scope]) p =
     ValidateScopes ext before p @ scopesLoop (ScopeEvaluators ext) p (length before) [scope] []"
  unfolding ValidateScopes_def
  by (simp add: scopesLoop_concat [of _ _ _ "before @ [scope]"] scopesLoop_concat [of _ _ _ before]
        enumerate_append_eq del: scopesLoop.simps)

lemma firstRejection_first:
  "list_all (\<lambda>x. \<not> Handles x scope \<or> Validate x scope = None) pre \<Longrightarrow>
   Handles e scope \<Longrightarrow> Validate e scope = Some m \<Longrightarrow>
   firstRejection (pre @ e # post) scope = Some m"
  by (induction pre) auto

lemma firstRejection_none:
  "list_all (\<lambda>x. \<not> Handles x scope \<or> Validate x scope = None) evs \<Longrightarrow>
   firstRejection evs scope = None"
  by (induction evs) auto

lemma runes_user_info: "runes ''user:info'' = [117, 115, 101, 114, 58, 105, 110, 102, 111]"
  by code_simp

text \<open>
  C1 (as stated, refuted). Two evaluators handle \<^verbatim>\<open>user:info\<close>. The first one registered
  accepts it, and the error of the second one is the result: the evaluator registered
  after the first handling evaluator was consulted and its outcome became the FieldError.
\<close>

theorem C1_first_match_wins_counterexample:
  "Handles sample_userEvaluator ''user:info''
   \<and> Validate sample_userEvaluator ''user:info'' = None
   \<and> ScopeEvaluators sample_twoEvaluators = [sample_userEvaluator, sample_strictEvaluator]
   \<and> ValidateScopes sample_twoEvaluators [''user:info''] (NewPath ''scopes'' [])
       = [Invalid (Index (NewPath ''scopes'' []) 0) (VString ''user:info'')
            ''refused by the second evaluator'']"
  by (simp add: sample_twoEvaluators_def sample_Externals_def sample_userEvaluator_def
        sample_strictEvaluator_def ValidateScopes_def runes_user_info)

text \<open>
  C1 (amended). For a scope that passes the character screening, dispatch runs through
  the evaluators in registration order and stops at the first evaluator that handles the
  scope and whose \<open>Validate\<close> returns an error: that error is the one FieldError of
  the scope, at the scope's index, whatever the evaluators registered after it do.
  Evaluators that do not handle the scope, and handling evaluators that accept it, do not
  stop the loop. When no handling evaluator returns an error, the scope yields no error
  if some evaluator handles it and "no scope handler found" otherwise.
\<close>

theorem C1_dispatch_until_first_rejection:
  "list_all scopeCharAllowed (runes scope) \<Longrightarrow>
     (ScopeEvaluators ext = pre @ e # post
        \<and> list_all (\<lambda>x. \<not> Handles x scope \<or> Validate x scope = None) pre
        \<and> Handles e scope \<and> Validate e scope = Some m \<longrightarrow>
      ValidateScopes ext (before @ [scope]) p =
        ValidateScopes ext before p @ [Invalid (Index p (length before)) (VString scope) m])
   \<and> (list_all (\<lambda>x. \<not> Handles x scope \<or> Validate x scope = None) (ScopeEvaluators ext) \<longrightarrow>
      ValidateScopes ext (before @ [scope]) p =
        ValidateScopes ext before p
        @ (if list_ex (\<lambda>x. Handles x scope) (ScopeEvaluators ext) then []
           else [Invalid (Index p (length before)) (VString scope) ''no scope handler found'']))"
  by (simp add: ValidateScopes_snoc scopesLoop_legal firstRejection_first firstRejection_none
        del: scopesLoop.simps)

theorem C1_dispatch_until_first_rejection_witness:
  "list_all scopeCharAllowed (runes ''user:info'')
   \<and> ScopeEvaluators sample_twoEvaluators = [] @ sample_userEvaluator # [sample_strictEvaluator]
   \<and> ValidateScopes sample_twoEvaluators ([] @ [''user:info'']) (NewPath ''scopes'' [])
       = [Invalid (Index (NewPath ''scopes'' []) 0) (VString ''user:info'')
            ''refused by the second evaluator'']
   \<and> ValidateScopes (sample_Externals\<lparr>ScopeEvaluators := [sample_strictEvaluator, sample_userEvaluator]\<rparr>)
         ([] @ [''user:info'']) (NewPath ''scopes'' [])
       = [Invalid (Index (NewPath ''scopes'' []) 0) (VString ''user:info'')
            ''refused by the second evaluator'']
   \<and> ValidateScopes sample_Externals ([] @ [''user:info'']) (NewPath ''scopes'' []) = []
   \<and> ValidateScopes (sample_Externals\<lparr>ScopeEvaluators := []\<rparr>) ([] @ [''user:info''])
         (NewPath ''scopes'' [])
       = [Invalid (Index (NewPath ''scopes'' []) 0) (VString ''user:info'') ''no scope handler found'']"
  using C1_dispatch_until_first_rejection
          [of "''user:info''" sample_twoEvaluators "[sample_userEvaluator]" sample_strictEvaluator "[]"
              "''refused by the second evaluator''" "[]" "NewPath ''scopes'' []"]
        C1_dispatch_until_first_rejection
          [of "''user:info''" "sample_Externals\<lparr>ScopeEvaluators := [sample_strictEvaluator, sample_userEvaluator]\<rparr>"
              "[]" sample_strictEvaluator "[sample_userEvaluator]"
              "''refused by the second evaluator''" "[]" "NewPath ''scopes'' []"]
        C1_dispatch_until_first_rejection
          [of "''user:info''" sample_Externals "[]" sample_userEvaluator "[]" "[]" "[]" "NewPath ''scopes'' []"]
        C1_dispatch_until_first_rejection
          [of "''user:info''" "sample_Externals\<lparr>ScopeEvaluators := []\<rparr>" "[]" sample_userEvaluator "[]" "[]" "[]"
              "NewPath ''scopes'' []"]
  by (simp add: sample_twoEvaluators_def sample_Externals_def sample_userEvaluator_def
        sample_strictEvaluator_def ValidateScopes_def runes_user_info scopeCharAllowed_def)

section \<open>Character screening\<close>

lemma runes_a_b_c: "runes ''a b  c'' = [97, 32, 98, 32, 32, 99]"
  by code_simp

lemma runes_other: "runes ''other'' = [111, 116, 104, 101, 114]"
  by code_simp

lemma runes_e_acute: "runes [CHR 0xC3, CHR 0xA9] = [233]"
  by code_simp

lemma space_illegal: "CHR '' '' \<in> set scope \<Longrightarrow> \<not> list_all scopeCharAllowed (runes scope)"
proof -
  assume "CHR '' '' \<in> set scope"
  then have "count_list scope CHR '' '' \<noteq> 0"
    using count_list_0_iff [of scope "CHR '' ''"] by simp
  then have "count_list (runes scope) 32 \<noteq> 0" by (simp add: count_runes_space)
  then have "32 \<in> set (runes scope)" using count_list_0_iff [of "runes scope" 32] by simp
  moreover have "\<not> scopeCharAllowed 32" by (simp add: scopeCharAllowed_def)
  ultimately show ?thesis unfolding list_all_iff by blast
qed

lemma count_illegal_space:
  "count_list (filter (\<lambda>ch. \<not> scopeCharAllowed ch) chs) 32 = count_list chs 32"
  by (induction chs) (simp_all add: scopeCharAllowed_def)

lemma formatInt_233: "formatInt 233 = ''233''"
  by (simp add: formatInt_def)

text \<open>
  C4. The errors of \<open>ValidateScopes\<close> are the errors of each scope in turn, in the order
  of the sequence: no scope stops the outer loop. A scope with a rune outside
  \<^verbatim>\<open>%x21 / %x23-5B / %x5D-7E\<close> yields exactly one error for each such rune, in order,
  all at the scope's index path, with the rune's number and "not allowed" as the message,
  and nothing else: the evaluators play no part in it. In particular a scope holding a
  space yields one "32 not allowed" error for each space.
\<close>

theorem C4_scope_character_screening:
  "ValidateScopes ext scopes p =
     concat (map (\<lambda>(i, scope). scopesLoop (ScopeEvaluators ext) p i [scope] []) (enumerate 0 scopes))
   \<and> (\<not> list_all scopeCharAllowed (runes scope) \<longrightarrow>
        scopesLoop evs p i [scope] [] =
          map (\<lambda>ch. Invalid (Index p i) (VString scope) (formatInt ch @ '' not allowed''))
            (filter (\<lambda>ch. \<not> scopeCharAllowed ch) (runes scope)))
   \<and> (CHR '' '' \<in> set scope \<longrightarrow>
        \<not> list_all scopeCharAllowed (runes scope)
        \<and> length (filter (\<lambda>e. e = Invalid (Index p i) (VString scope) ''32 not allowed'')
                    (scopesLoop evs p i [scope] []))
            = count_list scope CHR '' '')"
proof (intro conjI impI)
  show "ValidateScopes ext scopes p =
     concat (map (\<lambda>(i, scope). scopesLoop (ScopeEvaluators ext) p i [scope] []) (enumerate 0 scopes))"
    unfolding ValidateScopes_def by (rule scopesLoop_concat)
next
  assume "\<not> list_all scopeCharAllowed (runes scope)"
  then show "scopesLoop evs p i [scope] [] =
          map (\<lambda>ch. Invalid (Index p i) (VString scope) (formatInt ch @ '' not allowed''))
            (filter (\<lambda>ch. \<not> scopeCharAllowed ch) (runes scope))"
    by (rule scopesLoop_illegal)
next
  assume "CHR '' '' \<in> set scope"
  then show "\<not> list_all scopeCharAllowed (runes scope)" by (rule space_illegal)
next
  assume "CHR '' '' \<in> set scope"
  then have "\<not> list_all scopeCharAllowed (runes scope)" by (rule space_illegal)
  then have "scopesLoop evs p i [scope] [] =
          map (\<lambda>ch. Invalid (Index p i) (VString scope) (formatInt ch @ '' not allowed''))
            (filter (\<lambda>ch. \<not> scopeCharAllowed ch) (runes scope))"
    by (rule scopesLoop_illegal)
  then show "length (filter (\<lambda>e. e = Invalid (Index p i) (VString scope) ''32 not allowed'')
                    (scopesLoop evs p i [scope] []))
            = count_list scope CHR '' ''"
    by (simp only: count_space_errors count_illegal_space count_runes_space)
qed

theorem C4_scope_character_screening_witness:
  "\<not> list_all scopeCharAllowed (runes ''a b  c'') \<and> CHR '' '' \<in> set ''a b  c''
   \<and> count_list ''a b  c'' CHR '' '' = 3
   \<and> ValidateScopes sample_Externals [''a b  c'', ''user:info'', [CHR 0xC3, CHR 0xA9], ''other'']
        (NewPath ''scopes'' [])
      = [Invalid (Index (NewPath ''scopes'' []) 0) (VString ''a b  c'') ''32 not allowed'',
         Invalid (Index (NewPath ''scopes'' []) 0) (VString ''a b  c'') ''32 not allowed'',
         Invalid (Index (NewPath ''scopes'' []) 0) (VString ''a b  c'') ''32 not allowed'',
         Invalid (Index (NewPath ''scopes'' []) 2) (VString [CHR 0xC3, CHR 0xA9]) ''233 not allowed'',
         Invalid (Index (NewPath ''scopes'' []) 3) (VString ''other'') ''no scope handler found'']"
  using C4_scope_character_screening
          [of sample_Externals "[''a b  c'', ''user:info'', [CHR 0xC3, CHR 0xA9], ''other'']"
              "NewPath ''scopes'' []" "''a b  c''" "[sample_userEvaluator]" 0]
  by (simp add: sample_Externals_def sample_userEvaluator_def ValidateScopes_def
        runes_a_b_c runes_e_acute runes_user_info runes_other scopeCharAllowed_def
        formatInt_32 formatInt_233 Index_def)

section \<open>Redirect URIs\<close>

lemma segmentLoop_find:
  "segmentLoop segs =
     (case find (\<lambda>s. s = ''.'' \<or> s = ''..'') segs of
        None \<Rightarrow> (True, [])
      | Some s \<Rightarrow> (False, ''may not contain a path segment of '' @ s))"
  by (induction segs) auto

lemma segmentLoop_fails:
  "''.'' \<in> set segs \<or> ''..'' \<in> set segs \<Longrightarrow>
     segmentLoop segs = (False, ''may not contain a path segment of .'')
     \<or> segmentLoop segs = (False, ''may not contain a path segment of ..'')"
  by (induction segs) auto

lemma sample_Parse_dotdot: "sample_Parse ''http://x/../y'' = Inr \<lparr>Path = ''/../y'', Fragment = []\<rparr>"
  by (simp add: sample_Parse_def Let_def)

lemma sample_Parse_frag: "sample_Parse ''http://x#frag'' = Inr \<lparr>Path = [], Fragment = ''frag''\<rparr>"
  by (simp add: sample_Parse_def Let_def)

lemma sample_Parse_dot: "sample_Parse ''http://x/a/./b'' = Inr \<lparr>Path = ''/a/./b'', Fragment = []\<rparr>"
  by (simp add: sample_Parse_def Let_def)

text \<open>
  C9. \<open>ValidateRedirectURI\<close> accepts the empty string. On a non-empty string that
  \<^verbatim>\<open>url.Parse\<close> parses, the checks run in the order of the source: a non-empty fragment
  gives "may not contain a fragment"; otherwise the first segment of the path, split on
  \<^verbatim>\<open>/\<close>, that is \<^verbatim>\<open>.\<close> or \<^verbatim>\<open>..\<close> gives "may not contain a path segment of" that
  segment; otherwise the URI is accepted. For \<^verbatim>\<open>http://x/../y\<close>, parsed to the path
  \<^verbatim>\<open>/../y\<close> and no fragment, the result is the \<^verbatim>\<open>..\<close> message, and for
  \<^verbatim>\<open>http://x#frag\<close>, parsed to the fragment \<^verbatim>\<open>frag\<close>, the fragment message.
\<close>

theorem C9_redirect_uri:
  "ValidateRedirectURI ext [] = (True, [])
   \<and> (redirect \<noteq> [] \<and> url_Parse ext redirect = Inr u \<and> Fragment u \<noteq> [] \<longrightarrow>
        ValidateRedirectURI ext redirect = (False, ''may not contain a fragment''))
   \<and> (redirect \<noteq> [] \<and> url_Parse ext redirect = Inr u \<and> Fragment u = [] \<longrightarrow>
        ValidateRedirectURI ext redirect =
          (case find (\<lambda>s. s = ''.'' \<or> s = ''..'') (strings_Split (Path u) CHR ''/'') of
             None \<Rightarrow> (True, [])
           | Some s \<Rightarrow> (False, ''may not contain a path segment of '' @ s)))
   \<and> (redirect \<noteq> [] \<and> url_Parse ext redirect = Inr u \<and> Fragment u = []
        \<and> (''.'' \<in> set (strings_Split (Path u) CHR ''/'')
            \<or> ''..'' \<in> set (strings_Split (Path u) CHR ''/'')) \<longrightarrow>
        ValidateRedirectURI ext redirect = (False, ''may not contain a path segment of .'')
        \<or> ValidateRedirectURI ext redirect = (False, ''may not contain a path segment of ..''))
   \<and> (url_Parse ext ''http://x/../y'' = Inr u1 \<and> Path u1 = ''/../y'' \<and> Fragment u1 = [] \<longrightarrow>
        ValidateRedirectURI ext ''http://x/../y'' = (False, ''may not contain a path segment of ..''))
   \<and> (url_Parse ext ''http://x#frag'' = Inr u2 \<and> Fragment u2 = ''frag'' \<longrightarrow>
        ValidateRedirectURI ext ''http://x#frag'' = (False, ''may not contain a fragment''))"
proof (intro conjI impI)
  show "ValidateRedirectURI ext [] = (True, [])"
    by (simp add: ValidateRedirectURI_def)
next
  assume "redirect \<noteq> [] \<and> url_Parse ext redirect = Inr u \<and> Fragment u \<noteq> []"
  then show "ValidateRedirectURI ext redirect = (False, ''may not contain a fragment'')"
    by (simp add: ValidateRedirectURI_def)
next
  assume "redirect \<noteq> [] \<and> url_Parse ext redirect = Inr u \<and> Fragment u = []"
  then show "ValidateRedirectURI ext redirect =
          (case find (\<lambda>s. s = ''.'' \<or> s = ''..'') (strings_Split (Path u) CHR ''/'') of
             None \<Rightarrow> (True, [])
           | Some s \<Rightarrow> (False, ''may not contain a path segment of '' @ s))"
    by (simp add: ValidateRedirectURI_def segmentLoop_find)
next
  assume a: "redirect \<noteq> [] \<and> url_Parse ext redirect = Inr u \<and> Fragment u = []
        \<and> (''.'' \<in> set (strings_Split (Path u) CHR ''/'')
            \<or> ''..'' \<in> set (strings_Split (Path u) CHR ''/''))"
  then have "ValidateRedirectURI ext redirect = segmentLoop (strings_Split (Path u) CHR ''/'')"
    by (simp add: ValidateRedirectURI_def)
  with a segmentLoop_fails [of "strings_Split (Path u) CHR ''/''"]
  show "ValidateRedirectURI ext redirect = (False, ''may not contain a path segment of .'')
        \<or> ValidateRedirectURI ext redirect = (False, ''may not contain a path segment of ..'')"
    by simp
next
  assume "url_Parse ext ''http://x/../y'' = Inr u1 \<and> Path u1 = ''/../y'' \<and> Fragment u1 = []"
  then show "ValidateRedirectURI ext ''http://x/../y'' = (False, ''may not contain a path segment of ..'')"
    by (simp add: ValidateRedirectURI_def)
next
  assume "url_Parse ext ''http://x#frag'' = Inr u2 \<and> Fragment u2 = ''frag''"
  then show "ValidateRedirectURI ext ''http://x#frag'' = (False, ''may not contain a fragment'')"
    by (simp add: ValidateRedirectURI_def)
qed

theorem C9_redirect_uri_witness:
  "url_Parse sample_Externals ''http://x/../y'' = Inr \<lparr>Path = ''/../y'', Fragment = []\<rparr>
   \<and> ValidateRedirectURI sample_Externals ''http://x/../y'' = (False, ''may not contain a path segment of ..'')
   \<and> url_Parse sample_Externals ''http://x#frag'' = Inr \<lparr>Path = [], Fragment = ''frag''\<rparr>
   \<and> ValidateRedirectURI sample_Externals ''http://x#frag'' = (False, ''may not contain a fragment'')
   \<and> url_Parse sample_Externals ''http://x/a/./b'' = Inr \<lparr>Path = ''/a/./b'', Fragment = []\<rparr>
   \<and> ''.'' \<in> set (strings_Split ''/a/./b'' CHR ''/'')
   \<and> ValidateRedirectURI sample_Externals ''http://x/a/./b'' = (False, ''may not contain a path segment of .'')"
  using C9_redirect_uri [of sample_Externals "''http://x/a/./b''" "\<lparr>Path = ''/a/./b'', Fragment = []\<rparr>"
          "\<lparr>Path = ''/../y'', Fragment = []\<rparr>" "\<lparr>Path = [], Fragment = ''frag''\<rparr>"]
        C9_redirect_uri [of sample_Externals "''http://x#frag''" "\<lparr>Path = [], Fragment = ''frag''\<rparr>"
          "\<lparr>Path = ''/../y'', Fragment = []\<rparr>" "\<lparr>Path = [], Fragment = ''frag''\<rparr>"]
  by (simp add: sample_Externals_def sample_Parse_dotdot sample_Parse_frag sample_Parse_dot)

section \<open>Update validators\<close>

text \<open>
  C2 (as stated, refuted). The new access token differs from the old one in its empty
  \<open>userUID\<close>. Full validation of the new token reports the missing \<open>userUID\<close>;
  the result of \<open>ValidateAccessTokenUpdate\<close> does not hold that error.
\<close>

theorem C2_token_update_no_full_validation_counterexample:
  "Required (NewPath ''userUID'' []) []
     \<in> set (ValidateAccessToken sample_Externals (sample_accessToken\<lparr>OAuthAccessToken.UserUID := []\<rparr>))
   \<and> Required (NewPath ''userUID'' []) []
     \<notin> set (ValidateAccessTokenUpdate sample_Externals
               (sample_accessToken\<lparr>OAuthAccessToken.UserUID := []\<rparr>) sample_accessToken)"
  by (simp add: ValidateAccessToken_def ValidateAccessTokenUpdate_def Let_def sample_Externals_def
        sample_ValidateObjectMetaUpdate_def sample_ValidateImmutableField_def sample_accessToken_def
        ValidateRedirectURI_def)

text \<open>
  C2 (amended). \<open>ValidateClientUpdate\<close> and \<open>ValidateClientAuthorizationUpdate\<close>
  start with the full validation of the new object and append the metadata-update
  errors, and for client authorizations the three immutability checks. The update
  validators of access tokens and authorize tokens run no validation of the new token:
  their result is the metadata-update errors followed by the errors of
  \<open>ValidateImmutableField\<close> on the new token and the old token carrying the new
  token's metadata.
\<close>

theorem C2_update_validators:
  "ValidateClientUpdate ext client oldClient =
     ValidateClient ext client
     @ ValidateObjectMetaUpdate ext (OAuthClient.ObjectMeta client) (OAuthClient.ObjectMeta oldClient)
         (NewPath ''metadata'' [])
   \<and> ValidateClientAuthorizationUpdate ext newAuth oldAuth =
     ValidateClientAuthorization ext newAuth
     @ ValidateObjectMetaUpdate ext (OAuthClientAuthorization.ObjectMeta newAuth)
         (OAuthClientAuthorization.ObjectMeta oldAuth) (NewPath ''metadata'' [])
     @ (if OAuthClientAuthorization.ClientName oldAuth = OAuthClientAuthorization.ClientName newAuth
        then []
        else [Invalid (NewPath ''clientName'' []) (VString (OAuthClientAuthorization.ClientName newAuth))
                ''clientName is not a mutable field''])
     @ (if OAuthClientAuthorization.UserName oldAuth = OAuthClientAuthorization.UserName newAuth
        then []
        else [Invalid (NewPath ''userName'' []) (VString (OAuthClientAuthorization.UserName newAuth))
                ''userName is not a mutable field''])
     @ (if OAuthClientAuthorization.UserUID oldAuth = OAuthClientAuthorization.UserUID newAuth
        then []
        else [Invalid (NewPath ''userUID'' []) (VString (OAuthClientAuthorization.UserUID newAuth))
                ''userUID is not a mutable field''])
   \<and> ValidateAccessTokenUpdate ext newToken oldToken =
     ValidateObjectMetaUpdate ext (OAuthAccessToken.ObjectMeta newToken)
       (OAuthAccessToken.ObjectMeta oldToken) (NewPath ''metadata'' [])
     @ ValidateImmutableField ext (VAccessToken newToken)
         (VAccessToken (oldToken\<lparr>OAuthAccessToken.ObjectMeta := OAuthAccessToken.ObjectMeta newToken\<rparr>))
         (NewPath [] [])
   \<and> ValidateAuthorizeTokenUpdate ext newAuthorize oldAuthorize =
     ValidateObjectMetaUpdate ext (OAuthAuthorizeToken.ObjectMeta newAuthorize)
       (OAuthAuthorizeToken.ObjectMeta oldAuthorize) (NewPath ''metadata'' [])
     @ ValidateImmutableField ext (VAuthorizeToken newAuthorize)
         (VAuthorizeToken
            (oldAuthorize\<lparr>OAuthAuthorizeToken.ObjectMeta := OAuthAuthorizeToken.ObjectMeta newAuthorize\<rparr>))
         (NewPath [] [])"
  by (simp add: ValidateClientUpdate_def ValidateClientAuthorizationUpdate_def
        ValidateAccessTokenUpdate_def ValidateAuthorizeTokenUpdate_def Let_def)

theorem C2_update_validators_witness:
  "ValidateClientAuthorizationUpdate sample_Externals
     (sample_clientAuthorization\<lparr>OAuthClientAuthorization.UserUID := []\<rparr>) sample_clientAuthorization
     = ValidateClientAuthorization sample_Externals
         (sample_clientAuthorization\<lparr>OAuthClientAuthorization.UserUID := []\<rparr>)
       @ [Invalid (NewPath ''userUID'' []) (VString []) ''userUID is not a mutable field'']
   \<and> ValidateClientUpdate sample_Externals sample_client sample_client
     = ValidateClient sample_Externals sample_client
   \<and> ValidateAccessTokenUpdate sample_Externals
       (sample_accessToken\<lparr>OAuthAccessToken.UserUID := []\<rparr>) sample_accessToken
     = [Invalid (NewPath [] []) (VAccessToken (sample_accessToken\<lparr>OAuthAccessToken.UserUID := []\<rparr>))
          ''field is immutable'']
   \<and> ValidateAuthorizeTokenUpdate sample_Externals
       (sample_authorizeToken\<lparr>OAuthAuthorizeToken.UserUID := []\<rparr>) sample_authorizeToken
     = [Invalid (NewPath [] []) (VAuthorizeToken (sample_authorizeToken\<lparr>OAuthAuthorizeToken.UserUID := []\<rparr>))
          ''field is immutable'']"
  using C2_update_validators
          [of sample_Externals sample_client sample_client
              "sample_clientAuthorization\<lparr>OAuthClientAuthorization.UserUID := []\<rparr>" sample_clientAuthorization
              "sample_accessToken\<lparr>OAuthAccessToken.UserUID := []\<rparr>" sample_accessToken
              "sample_authorizeToken\<lparr>OAuthAuthorizeToken.UserUID := []\<rparr>" sample_authorizeToken]
  by (simp add: sample_Externals_def sample_ValidateObjectMetaUpdate_def
        sample_ValidateImmutableField_def sample_accessToken_def sample_authorizeToken_def
        sample_clientAuthorization_def)

section \<open>Field paths of the errors\<close>

lemma ValidateClientNameField_Field:
  "e \<in> set (ValidateClientNameField ext v fldPath) \<Longrightarrow> Field e = fldPath"
  by (auto simp: ValidateClientNameField_def Let_def split: if_splits sum.splits prod.splits)

lemma ValidateUserNameField_Field:
  "e \<in> set (ValidateUserNameField ext v fldPath) \<Longrightarrow> Field e = fldPath"
  by (auto simp: ValidateUserNameField_def Let_def split: if_splits)

lemma scopesLoop_single_Field:
  "e \<in> set (scopesLoop evs p k [s] []) \<Longrightarrow> Field e = Index p k"
proof (cases "list_all scopeCharAllowed (runes s)")
  case True
  assume "e \<in> set (scopesLoop evs p k [s] [])"
  then show ?thesis
    unfolding scopesLoop_legal [OF True] by (auto split: option.splits if_splits)
next
  case False
  assume "e \<in> set (scopesLoop evs p k [s] [])"
  then show ?thesis
    unfolding scopesLoop_illegal [OF False] by auto
qed

lemma ValidateScopes_Field:
  "e \<in> set (ValidateScopes ext scopes p) \<Longrightarrow> \<exists>k. Field e = Index p k"
  unfolding ValidateScopes_def scopesLoop_concat [of _ _ _ scopes]
  by (auto simp del: scopesLoop.simps dest: scopesLoop_single_Field)

lemma filter_none: "(\<And>e. e \<in> set xs \<Longrightarrow> \<not> P e) \<Longrightarrow> filter P xs = []"
  by (induction xs) auto

lemma fields_not_at:
  assumes "q \<noteq> NewPath ''clientName'' []" "q \<noteq> NewPath ''userName'' []"
    and "\<And>k. q \<noteq> Index (NewPath ''scopes'' []) k"
  shows "filter (\<lambda>e. Field e = q)
           (ValidateClientNameField ext c (NewPath ''clientName'' [])
            @ ValidateUserNameField ext u (NewPath ''userName'' [])
            @ ValidateScopes ext scopes (NewPath ''scopes'' [])) = []"
proof (rule filter_none)
  fix e
  assume "e \<in> set (ValidateClientNameField ext c (NewPath ''clientName'' [])
            @ ValidateUserNameField ext u (NewPath ''userName'' [])
            @ ValidateScopes ext scopes (NewPath ''scopes'' []))"
  then consider "e \<in> set (ValidateClientNameField ext c (NewPath ''clientName'' []))"
    | "e \<in> set (ValidateUserNameField ext u (NewPath ''userName'' []))"
    | "e \<in> set (ValidateScopes ext scopes (NewPath ''scopes'' []))"
    by auto
  then show "Field e \<noteq> q"
  proof cases
    case 1
    then show ?thesis using ValidateClientNameField_Field assms(1) by blast
  next
    case 2
    then show ?thesis using ValidateUserNameField_Field assms(2) by blast
  next
    case 3
    then show ?thesis using ValidateScopes_Field assms(3) by blast
  qed
qed

lemma ValidateClientAuthorization_eq:
  "ValidateClientAuthorization ext ca =
     (if ValidateObjectMeta ext (OAuthClientAuthorization.ObjectMeta ca) False
           (ValidateClientAuthorizationName ext) (NewPath ''metadata'' []) \<noteq> []
      then ValidateObjectMeta ext (OAuthClientAuthorization.ObjectMeta ca) False
             (ValidateClientAuthorizationName ext) (NewPath ''metadata'' [])
      else if Name (OAuthClientAuthorization.ObjectMeta ca)
                \<noteq> OAuthClientAuthorization.UserName ca @ '':'' @ OAuthClientAuthorization.ClientName ca
      then [Invalid (NewPath ''metadata'' [''name''])
              (VString (Name (OAuthClientAuthorization.ObjectMeta ca)))
              ''must be in the format <userName>:<clientName>'']
      else [])
     @ (ValidateClientNameField ext (OAuthClientAuthorization.ClientName ca) (NewPath ''clientName'' [])
        @ ValidateUserNameField ext (OAuthClientAuthorization.UserName ca) (NewPath ''userName'' [])
        @ ValidateScopes ext (OAuthClientAuthorization.Scopes ca) (NewPath ''scopes'' []))
     @ (if OAuthClientAuthorization.UserUID ca = [] then [Required (NewPath ''useruid'' []) []] else [])"
  by (simp add: ValidateClientAuthorization_def Let_def)

section \<open>The sample collaborators, evaluated\<close>

lemma sample_ValidateClientNameField: "ValidateClientNameField sample_Externals ''app'' p = []"
  by (simp add: ValidateClientNameField_def sample_Externals_def sample_SplitUsername_def
        sample_NameCheck_def)

lemma sample_ValidateUserNameField:
  "ValidateUserNameField sample_Externals ''bob'' p = []"
  "ValidateUserNameField sample_Externals ''alice'' p = []"
  by (simp_all add: ValidateUserNameField_def sample_Externals_def sample_NameCheck_def)

lemma sample_ValidateScopes: "ValidateScopes sample_Externals [''user:info''] p = []"
  by (simp add: ValidateScopes_def sample_Externals_def sample_userEvaluator_def runes_user_info
        scopeCharAllowed_def)

lemma sample_ValidateRedirectURI: "ValidateRedirectURI sample_Externals [] = (True, [])"
  by (simp add: ValidateRedirectURI_def)

lemma sample_token_meta_ok:
  "ValidateObjectMeta sample_Externals sample_meta False (ValidateTokenName sample_Externals)
     (NewPath ''metadata'' []) = []"
  by (simp add: sample_Externals_def sample_ValidateObjectMeta_def sample_meta_def
        ValidateTokenName_def sample_MinimalNameRequirements_def Let_def MinTokenLength_def)

lemma sample_meta_ok:
  "ValidateObjectMeta sample_Externals (sample_meta\<lparr>Name := ''bob:app''\<rparr>) False
     (ValidateClientAuthorizationName sample_Externals) (NewPath ''metadata'' []) = []"
  by (simp add: sample_Externals_def sample_ValidateObjectMeta_def sample_meta_def
        ValidateClientAuthorizationName_def sample_MinimalNameRequirements_def Let_def)

lemma sample_meta_bad:
  "ValidateObjectMeta sample_Externals (sample_meta\<lparr>Name := ''bobapp''\<rparr>) False
     (ValidateClientAuthorizationName sample_Externals) (NewPath ''metadata'' [])
   = [Invalid (NewPath ''metadata'' [''name'']) (VString ''bobapp'')
        ''must be in the format <userName>:<clientName>'']"
  by (simp add: sample_Externals_def sample_ValidateObjectMeta_def sample_meta_def
        ValidateClientAuthorizationName_def sample_MinimalNameRequirements_def Let_def
        NewPath_def Child_def)

section \<open>Client authorizations\<close>

text \<open>
  C6. When the generic metadata validation of a client authorization reports nothing,
  the errors at \<^verbatim>\<open>metadata.name\<close> are exactly one Invalid error "must be in the format
  <userName>:<clientName>" if the name differs from \<open>userName\<close>, a colon and
  \<open>clientName\<close>, and none if it is equal. When metadata validation reports an error,
  the comparison is skipped: the result is the metadata errors followed by the errors of
  the other fields, and its errors at \<^verbatim>\<open>metadata.name\<close> are those of the metadata
  validation.
\<close>

theorem C6_client_authorization_name:
  "(ValidateObjectMeta ext (OAuthClientAuthorization.ObjectMeta ca) False
      (ValidateClientAuthorizationName ext) (NewPath ''metadata'' []) = [] \<longrightarrow>
      filter (\<lambda>e. Field e = NewPath ''metadata'' [''name'']) (ValidateClientAuthorization ext ca)
        = (if Name (OAuthClientAuthorization.ObjectMeta ca)
                \<noteq> OAuthClientAuthorization.UserName ca @ '':'' @ OAuthClientAuthorization.ClientName ca
           then [Invalid (NewPath ''metadata'' [''name''])
                   (VString (Name (OAuthClientAuthorization.ObjectMeta ca)))
                   ''must be in the format <userName>:<clientName>'']
           else []))
   \<and> (ValidateObjectMeta ext (OAuthClientAuthorization.ObjectMeta ca) False
        (ValidateClientAuthorizationName ext) (NewPath ''metadata'' []) \<noteq> [] \<longrightarrow>
      ValidateClientAuthorization ext ca
        = ValidateObjectMeta ext (OAuthClientAuthorization.ObjectMeta ca) False
            (ValidateClientAuthorizationName ext) (NewPath ''metadata'' [])
          @ ValidateClientNameField ext (OAuthClientAuthorization.ClientName ca) (NewPath ''clientName'' [])
          @ ValidateUserNameField ext (OAuthClientAuthorization.UserName ca) (NewPath ''userName'' [])
          @ ValidateScopes ext (OAuthClientAuthorization.Scopes ca) (NewPath ''scopes'' [])
          @ (if OAuthClientAuthorization.UserUID ca = [] then [Required (NewPath ''useruid'' []) []] else [])
      \<and> filter (\<lambda>e. Field e = NewPath ''metadata'' [''name'']) (ValidateClientAuthorization ext ca)
        = filter (\<lambda>e. Field e = NewPath ''metadata'' [''name''])
            (ValidateObjectMeta ext (OAuthClientAuthorization.ObjectMeta ca) False
               (ValidateClientAuthorizationName ext) (NewPath ''metadata'' [])))"
proof -
  define P where "P = (\<lambda>e. Field e = NewPath ''metadata'' [''name''])"
  define M where "M = ValidateObjectMeta ext (OAuthClientAuthorization.ObjectMeta ca) False
      (ValidateClientAuthorizationName ext) (NewPath ''metadata'' [])"
  define F where "F = ValidateClientNameField ext (OAuthClientAuthorization.ClientName ca) (NewPath ''clientName'' [])
            @ ValidateUserNameField ext (OAuthClientAuthorization.UserName ca) (NewPath ''userName'' [])
            @ ValidateScopes ext (OAuthClientAuthorization.Scopes ca) (NewPath ''scopes'' [])"
  define U where "U = (if OAuthClientAuthorization.UserUID ca = []
                       then [Required (NewPath ''useruid'' []) []] else [])"
  define I where "I = Invalid (NewPath ''metadata'' [''name''])
                   (VString (Name (OAuthClientAuthorization.ObjectMeta ca)))
                   ''must be in the format <userName>:<clientName>''"
  have R: "ValidateClientAuthorization ext ca =
     (if M \<noteq> [] then M
      else if Name (OAuthClientAuthorization.ObjectMeta ca)
                \<noteq> OAuthClientAuthorization.UserName ca @ '':'' @ OAuthClientAuthorization.ClientName ca
      then [I] else []) @ F @ U"
    unfolding M_def F_def U_def I_def by (rule ValidateClientAuthorization_eq)
  have fF: "filter P F = []"
    unfolding P_def F_def by (rule fields_not_at) (simp_all add: NewPath_def Index_def)
  have fU: "filter P U = []"
    by (simp add: P_def U_def NewPath_def)
  have fI: "filter P [I] = [I]"
    by (simp add: P_def I_def)
  have 1: "M = [] \<longrightarrow> filter P (ValidateClientAuthorization ext ca)
        = (if Name (OAuthClientAuthorization.ObjectMeta ca)
                \<noteq> OAuthClientAuthorization.UserName ca @ '':'' @ OAuthClientAuthorization.ClientName ca
           then [I] else [])"
    unfolding R using fF fU fI by simp
  have 2: "M \<noteq> [] \<longrightarrow> ValidateClientAuthorization ext ca = M @ F @ U
      \<and> filter P (ValidateClientAuthorization ext ca) = filter P M"
    unfolding R using fF fU by simp
  from 1 2 show ?thesis
    unfolding P_def M_def F_def U_def I_def append_assoc by (rule conjI)
qed

theorem C6_client_authorization_name_witness:
  "ValidateObjectMeta sample_Externals
      (OAuthClientAuthorization.ObjectMeta
         (sample_clientAuthorization\<lparr>OAuthClientAuthorization.UserName := ''alice''\<rparr>)) False
      (ValidateClientAuthorizationName sample_Externals) (NewPath ''metadata'' []) = []
   \<and> filter (\<lambda>e. Field e = NewPath ''metadata'' [''name''])
       (ValidateClientAuthorization sample_Externals
          (sample_clientAuthorization\<lparr>OAuthClientAuthorization.UserName := ''alice''\<rparr>))
     = [Invalid (NewPath ''metadata'' [''name'']) (VString ''bob:app'')
          ''must be in the format <userName>:<clientName>'']
   \<and> ValidateObjectMeta sample_Externals
      (OAuthClientAuthorization.ObjectMeta
         (sample_clientAuthorization
            \<lparr>OAuthClientAuthorization.ObjectMeta := sample_meta\<lparr>Name := ''bobapp''\<rparr>\<rparr>)) False
      (ValidateClientAuthorizationName sample_Externals) (NewPath ''metadata'' []) \<noteq> []
   \<and> filter (\<lambda>e. Field e = NewPath ''metadata'' [''name''])
       (ValidateClientAuthorization sample_Externals
          (sample_clientAuthorization
             \<lparr>OAuthClientAuthorization.ObjectMeta := sample_meta\<lparr>Name := ''bobapp''\<rparr>\<rparr>))
     = [Invalid (NewPath ''metadata'' [''name'']) (VString ''bobapp'')
          ''must be in the format <userName>:<clientName>'']"
  using C6_client_authorization_name
          [of sample_Externals "sample_clientAuthorization\<lparr>OAuthClientAuthorization.UserName := ''alice''\<rparr>"]
        C6_client_authorization_name
          [of sample_Externals
              "sample_clientAuthorization
                 \<lparr>OAuthClientAuthorization.ObjectMeta := sample_meta\<lparr>Name := ''bobapp''\<rparr>\<rparr>"]
  by (simp add: sample_clientAuthorization_def sample_meta_ok sample_meta_bad
        sample_ValidateClientNameField sample_ValidateUserNameField sample_ValidateScopes)

text \<open>
  C10. A client authorization with an empty \<open>userUID\<close> gets exactly one more error
  than the same object with a \<open>userUID\<close>: a Required error, appended last, whose path
  is the lowercase \<^verbatim>\<open>useruid\<close>. That path is not \<^verbatim>\<open>userUID\<close>, the path at which
  \<open>ValidateAccessToken\<close> and \<open>ValidateAuthorizeToken\<close> report the same missing
  field, and \<open>ValidateClientAuthorization\<close> puts no error of its own at \<^verbatim>\<open>userUID\<close>:
  the only errors there are those the metadata validator returns.
\<close>

theorem C10_useruid_path:
  "(uid \<noteq> [] \<longrightarrow>
      ValidateClientAuthorization ext (ca\<lparr>OAuthClientAuthorization.UserUID := []\<rparr>)
        = ValidateClientAuthorization ext (ca\<lparr>OAuthClientAuthorization.UserUID := uid\<rparr>)
          @ [Required (NewPath ''useruid'' []) []])
   \<and> NewPath ''useruid'' [] \<noteq> NewPath ''userUID'' []
   \<and> filter (\<lambda>e. Field e = NewPath ''userUID'' []) (ValidateClientAuthorization ext ca)
       = filter (\<lambda>e. Field e = NewPath ''userUID'' [])
           (ValidateObjectMeta ext (OAuthClientAuthorization.ObjectMeta ca) False
              (ValidateClientAuthorizationName ext) (NewPath ''metadata'' []))
   \<and> (OAuthAccessToken.UserUID accessToken = [] \<longrightarrow>
        Required (NewPath ''userUID'' []) [] \<in> set (ValidateAccessToken ext accessToken))
   \<and> (OAuthAuthorizeToken.UserUID authorizeToken = [] \<longrightarrow>
        Required (NewPath ''userUID'' []) [] \<in> set (ValidateAuthorizeToken ext authorizeToken))"
proof (intro conjI impI)
  assume "uid \<noteq> []"
  then show "ValidateClientAuthorization ext (ca\<lparr>OAuthClientAuthorization.UserUID := []\<rparr>)
        = ValidateClientAuthorization ext (ca\<lparr>OAuthClientAuthorization.UserUID := uid\<rparr>)
          @ [Required (NewPath ''useruid'' []) []]"
    by (simp add: ValidateClientAuthorization_eq)
next
  show "NewPath ''useruid'' [] \<noteq> NewPath ''userUID'' []"
    by (simp add: NewPath_def)
next
  define P where "P = (\<lambda>e. Field e = NewPath ''userUID'' [])"
  define M where "M = ValidateObjectMeta ext (OAuthClientAuthorization.ObjectMeta ca) False
      (ValidateClientAuthorizationName ext) (NewPath ''metadata'' [])"
  define F where "F = ValidateClientNameField ext (OAuthClientAuthorization.ClientName ca) (NewPath ''clientName'' [])
            @ ValidateUserNameField ext (OAuthClientAuthorization.UserName ca) (NewPath ''userName'' [])
            @ ValidateScopes ext (OAuthClientAuthorization.Scopes ca) (NewPath ''scopes'' [])"
  define U where "U = (if OAuthClientAuthorization.UserUID ca = []
                       then [Required (NewPath ''useruid'' []) []] else [])"
  define I where "I = Invalid (NewPath ''metadata'' [''name''])
                   (VString (Name (OAuthClientAuthorization.ObjectMeta ca)))
                   ''must be in the format <userName>:<clientName>''"
  have R: "ValidateClientAuthorization ext ca =
     (if M \<noteq> [] then M
      else if Name (OAuthClientAuthorization.ObjectMeta ca)
                \<noteq> OAuthClientAuthorization.UserName ca @ '':'' @ OAuthClientAuthorization.ClientName ca
      then [I] else []) @ F @ U"
    unfolding M_def F_def U_def I_def by (rule ValidateClientAuthorization_eq)
  have fF: "filter P F = []"
    unfolding P_def F_def by (rule fields_not_at) (simp_all add: NewPath_def Index_def)
  have fU: "filter P U = []"
    by (simp add: P_def U_def NewPath_def)
  have fI: "filter P [I] = []"
    by (simp add: P_def I_def NewPath_def)
  have "filter P (ValidateClientAuthorization ext ca) = filter P M"
    unfolding R using fF fU fI by simp
  then show "filter (\<lambda>e. Field e = NewPath ''userUID'' []) (ValidateClientAuthorization ext ca)
       = filter (\<lambda>e. Field e = NewPath ''userUID'' [])
           (ValidateObjectMeta ext (OAuthClientAuthorization.ObjectMeta ca) False
              (ValidateClientAuthorizationName ext) (NewPath ''metadata'' []))"
    unfolding P_def M_def .
next
  assume "OAuthAccessToken.UserUID accessToken = []"
  then show "Required (NewPath ''userUID'' []) [] \<in> set (ValidateAccessToken ext accessToken)"
    by (cases "ValidateRedirectURI ext (OAuthAccessToken.RedirectURI accessToken)")
      (simp add: ValidateAccessToken_def Let_def)
next
  assume "OAuthAuthorizeToken.UserUID authorizeToken = []"
  then show "Required (NewPath ''userUID'' []) [] \<in> set (ValidateAuthorizeToken ext authorizeToken)"
    by (cases "ValidateRedirectURI ext (OAuthAuthorizeToken.RedirectURI authorizeToken)")
      (simp add: ValidateAuthorizeToken_def Let_def)
qed

theorem C10_useruid_path_witness:
  "ValidateClientAuthorization sample_Externals
      (sample_clientAuthorization\<lparr>OAuthClientAuthorization.UserUID := []\<rparr>)
     = [Required (NewPath ''useruid'' []) []]
   \<and> filter (\<lambda>e. Field e = NewPath ''userUID'' [])
        (ValidateClientAuthorization sample_Externals
           (sample_clientAuthorization\<lparr>OAuthClientAuthorization.UserUID := []\<rparr>)) = []
   \<and> OAuthAccessToken.UserUID (sample_accessToken\<lparr>OAuthAccessToken.UserUID := []\<rparr>) = []
   \<and> ValidateAccessToken sample_Externals (sample_accessToken\<lparr>OAuthAccessToken.UserUID := []\<rparr>)
     = [Required (NewPath ''userUID'' []) []]
   \<and> ValidateAuthorizeToken sample_Externals (sample_authorizeToken\<lparr>OAuthAuthorizeToken.UserUID := []\<rparr>)
     = [Required (NewPath ''userUID'' []) []]"
  using C10_useruid_path
          [of "''1234''" sample_Externals sample_clientAuthorization
              "sample_accessToken\<lparr>OAuthAccessToken.UserUID := []\<rparr>"
              "sample_authorizeToken\<lparr>OAuthAuthorizeToken.UserUID := []\<rparr>"]
  by (simp add: sample_clientAuthorization_def sample_accessToken_def sample_authorizeToken_def
        ValidateClientAuthorization_eq ValidateAccessToken_def ValidateAuthorizeToken_def Let_def
        sample_meta_ok sample_token_meta_ok sample_ValidateClientNameField
        sample_ValidateUserNameField sample_ValidateScopes sample_ValidateRedirectURI)

section \<open>PKCE\<close>

lemma codeChallengeChar_a: "codeChallengeChar CHR ''a''"
  by (simp add: codeChallengeChar_def)

lemma list_all_replicate_a: "list_all codeChallengeChar (replicate n CHR ''a'')"
  by (simp add: list_all_iff codeChallengeChar_a)

lemma sample_authorizeToken_ok: "ValidateAuthorizeToken sample_Externals sample_authorizeToken = []"
  by (simp add: sample_authorizeToken_def ValidateAuthorizeToken_def Let_def
        sample_token_meta_ok sample_ValidateClientNameField sample_ValidateUserNameField
        sample_ValidateScopes sample_ValidateRedirectURI)

text \<open>
  C5. For an authorize token with a code challenge or a code challenge method, the errors
  are those of the same token without the two fields, followed by the errors of the
  challenge and then those of the method. A non-empty challenge made of the characters
  \<^verbatim>\<open>[a-zA-Z0-9._~-]\<close> yields the Invalid error "must be 43-128 characters
  [a-zA-Z0-9.~_-]" exactly when its length is below 43 or above 128, and no error
  otherwise. A non-empty method yields no error exactly when it is \<^verbatim>\<open>plain\<close> or
  \<^verbatim>\<open>S256\<close>, and otherwise exactly one NotSupported error that lists \<^verbatim>\<open>plain\<close> and
  \<^verbatim>\<open>S256\<close>.
\<close>

theorem C5_pkce:
  "CodeChallenge t \<noteq> [] \<or> CodeChallengeMethod t \<noteq> [] \<Longrightarrow>
     ValidateAuthorizeToken ext t
       = ValidateAuthorizeToken ext (t\<lparr>CodeChallenge := [], CodeChallengeMethod := []\<rparr>)
         @ codeChallengeErrs t @ codeChallengeMethodErrs t
     \<and> (CodeChallenge t \<noteq> [] \<and> list_all codeChallengeChar (CodeChallenge t) \<longrightarrow>
          codeChallengeErrs t =
            (if 43 \<le> length (CodeChallenge t) \<and> length (CodeChallenge t) \<le> 128 then []
             else [Invalid (NewPath ''codeChallenge'' []) (VString (CodeChallenge t))
                     ''must be 43-128 characters [a-zA-Z0-9.~_-]'']))
     \<and> (CodeChallengeMethod t \<noteq> [] \<longrightarrow>
          codeChallengeMethodErrs t =
            (if CodeChallengeMethod t = ''plain'' \<or> CodeChallengeMethod t = ''S256'' then []
             else [NotSupported (NewPath ''codeChallengeMethod'' []) (VString (CodeChallengeMethod t))
                     [''plain'', ''S256'']]))"
proof (intro conjI impI)
  assume "CodeChallenge t \<noteq> [] \<or> CodeChallengeMethod t \<noteq> []"
  then show "ValidateAuthorizeToken ext t
       = ValidateAuthorizeToken ext (t\<lparr>CodeChallenge := [], CodeChallengeMethod := []\<rparr>)
         @ codeChallengeErrs t @ codeChallengeMethodErrs t"
    by (cases "ValidateRedirectURI ext (OAuthAuthorizeToken.RedirectURI t)")
      (auto simp: ValidateAuthorizeToken_def Let_def)
next
  assume "CodeChallenge t \<noteq> [] \<and> list_all codeChallengeChar (CodeChallenge t)"
  then show "codeChallengeErrs t =
            (if 43 \<le> length (CodeChallenge t) \<and> length (CodeChallenge t) \<le> 128 then []
             else [Invalid (NewPath ''codeChallenge'' []) (VString (CodeChallenge t))
                     ''must be 43-128 characters [a-zA-Z0-9.~_-]''])"
    by (simp add: codeChallengeErrs_def codeChallengeRegex_MatchString_def)
next
  assume "CodeChallengeMethod t \<noteq> []"
  then show "codeChallengeMethodErrs t =
            (if CodeChallengeMethod t = ''plain'' \<or> CodeChallengeMethod t = ''S256'' then []
             else [NotSupported (NewPath ''codeChallengeMethod'' []) (VString (CodeChallengeMethod t))
                     [''plain'', ''S256'']])"
    by (simp add: codeChallengeMethodErrs_def codeChallengeMethodPlain_def
          codeChallengeMethodSHA256_def CodeChallengeMethodsSupported_def)
qed

theorem C5_pkce_witness:
  "ValidateAuthorizeToken sample_Externals
     (sample_authorizeToken\<lparr>CodeChallenge := replicate 42 CHR ''a'', CodeChallengeMethod := ''foo''\<rparr>)
     = [Invalid (NewPath ''codeChallenge'' []) (VString (replicate 42 CHR ''a''))
          ''must be 43-128 characters [a-zA-Z0-9.~_-]'',
        NotSupported (NewPath ''codeChallengeMethod'' []) (VString ''foo'') [''plain'', ''S256'']]
   \<and> ValidateAuthorizeToken sample_Externals
     (sample_authorizeToken\<lparr>CodeChallenge := replicate 43 CHR ''a'', CodeChallengeMethod := ''S256''\<rparr>)
     = []
   \<and> ValidateAuthorizeToken sample_Externals
     (sample_authorizeToken\<lparr>CodeChallenge := replicate 128 CHR ''a'', CodeChallengeMethod := ''plain''\<rparr>)
     = []
   \<and> ValidateAuthorizeToken sample_Externals
     (sample_authorizeToken\<lparr>CodeChallenge := replicate 129 CHR ''a'', CodeChallengeMethod := ''S256''\<rparr>)
     = [Invalid (NewPath ''codeChallenge'' []) (VString (replicate 129 CHR ''a''))
          ''must be 43-128 characters [a-zA-Z0-9.~_-]'']"
  using C5_pkce [of "sample_authorizeToken\<lparr>CodeChallenge := replicate 42 CHR ''a'', CodeChallengeMethod := ''foo''\<rparr>"
                    sample_Externals]
        C5_pkce [of "sample_authorizeToken\<lparr>CodeChallenge := replicate 43 CHR ''a'', CodeChallengeMethod := ''S256''\<rparr>"
                    sample_Externals]
        C5_pkce [of "sample_authorizeToken\<lparr>CodeChallenge := replicate 128 CHR ''a'', CodeChallengeMethod := ''plain''\<rparr>"
                    sample_Externals]
        C5_pkce [of "sample_authorizeToken\<lparr>CodeChallenge := replicate 129 CHR ''a'', CodeChallengeMethod := ''S256''\<rparr>"
                    sample_Externals]
  by (simp add: list_all_replicate_a sample_authorizeToken_def
        sample_authorizeToken_ok [unfolded sample_authorizeToken_def])

end
